theory Spec2Isabelle
  imports Main "HOL-Library.Word"
begin

section \<open>The WebRTC to RTSP bridge of plugins/webrtc/src/wrtc-to-rtsp.ts\<close>

text \<open>
  The theory embeds \<^verbatim>\<open>createRTCPeerConnectionSource\<close>: the closure variables of that
  function are the fields of one record, every callback the function registers is a
  handler on that record, and every call the bridge makes on a collaborator (the sink
  socket, the RTSP server, the peer connection, the session control handle, the
  forwarder process) is appended to a trace.  An asynchronous function is a function
  from the outcomes of the promises it awaits to the outcome of its own promise.  The
  output on the console, with the diagnostic of the first packet of a track, is left
  out.
\<close>

subsection \<open>Errors and promises\<close>

text \<open>
  The source throws plain \<^verbatim>\<open>Error\<close> objects; the constructors carry the names the
  specification gives them.
  \<^item> \<open>SetupError\<close>: \<^verbatim>\<open>new Error('rtsp setup needs answer sdp')\<close>;
  \<^item> \<open>TrackResolutionError\<close>: the TypeError of reading \<^verbatim>\<open>.control\<close> of the
    \<^verbatim>\<open>undefined\<close> that \<^verbatim>\<open>find\<close> returns when no media section matches;
  \<^item> \<open>ConnectionClosedError\<close>: \<^verbatim>\<open>new Error('peer connection is closed')\<close>;
  \<^item> \<open>IntercomUnsupportedError\<close>:
    \<^verbatim>\<open>new Error('peer connection does not support two way audio')\<close>;
  \<^item> \<open>External n\<close>: an error raised by a collaborator.
\<close>

datatype error =
    SetupError
  | TrackResolutionError
  | ConnectionClosedError
  | IntercomUnsupportedError
  | External nat

text \<open>
  Modelled from the spec: the class \<^verbatim>\<open>Deferred\<close> of @scrypted/common/src/deferred is not
  among the sources.  The specification gives it the states pending, resolved and
  rejected, one transition, and settlement after settlement as a no-op;
  \<^verbatim>\<open>finished\<close> is the flag the source reads.  The same three states are the outcome
  of any promise: \<open>Pending\<close> as an outcome is a promise that never settles.
\<close>

datatype 'a deferred = Pending | Resolved 'a | Rejected error

fun finished :: "'a deferred \<Rightarrow> bool" where
  "finished Pending = False"
| "finished (Resolved v) = True"
| "finished (Rejected e) = True"

fun resolve :: "'a \<Rightarrow> 'a deferred \<Rightarrow> 'a deferred" where
  "resolve v Pending = Resolved v"
| "resolve v d = d"

fun reject :: "error \<Rightarrow> 'a deferred \<Rightarrow> 'a deferred" where
  "reject e Pending = Rejected e"
| "reject e d = d"

subsection \<open>Values exchanged with the collaborators\<close>

type_synonym byte = "8 word"

datatype sdp_type = Offer | Answer | Pranswer | Rollback

record description =
  dtype :: sdp_type
  dsdp :: string

text \<open>A media section as \<^verbatim>\<open>parseSdp\<close> returns it; a section may lack its control attribute.\<close>

record msection =
  mtype :: string
  control :: "string option"

text \<open>
  \<^verbatim>\<open>RTCAVSignalingSetup\<close>: the configuration the peer connection is built from (opaque)
  and whether a data channel is asked for.
\<close>

record signaling_setup =
  configuration :: nat
  datachannel :: bool

text \<open>A received packet is its \<^verbatim>\<open>serialize()\<close>, the only thing the relay reads of it.\<close>

datatype packet = Packet (serialize: "byte list")

datatype kind = Audio | Video

text \<open>An \<^verbatim>\<open>RTCPeerConnection\<close>: which construction it is, and the configuration it got.\<close>

type_synonym pc = "nat \<times> nat"

text \<open>The calls the bridge makes on its collaborators, in the order it makes them.\<close>

datatype effect =
    SocketDestroy
  | CloseUdp
  | EndSession
  | PcClose nat
  | AddTransceiver nat kind
  | OnTrackSubscribe nat kind
  | CreateDataChannel nat
  | PcCreateAnswer nat
  | PcCreateOffer nat
  | PcSetLocalDescription nat description
  | PcSetRemoteDescription nat description
  | PcAddIceCandidate nat
  | HandlePlayback
  | SendTrack "string option" "byte list" bool
  | SendRtcpFir nat
  | SendRtcpPLI
  | Spawn nat
  | Kill nat
  | SetPlayback bool bool

text \<open>
  \<^verbatim>\<open>createSdpInput\<close> and \<^verbatim>\<open>parseSdp\<close> (@scrypted/common/src/sdp-utils) and
  \<^verbatim>\<open>createRawResponse\<close> (./werift-util) are not among the sources: they are parameters.
  \<open>parseSdp\<close> stands for \<^verbatim>\<open>parseSdp(...).msections\<close>.
\<close>

record collaborators =
  createSdpInput :: "string \<Rightarrow> string"
  parseSdp :: "string \<Rightarrow> msection list"
  createRawResponse :: "description \<Rightarrow> description"

text \<open>
  The outcomes of the promises one call of the session awaits on the peer connection
  and the sink: \<^verbatim>\<open>createAnswer\<close>, the first and the second \<^verbatim>\<open>createOffer\<close>,
  \<^verbatim>\<open>handlePlayback\<close>, \<^verbatim>\<open>setLocalDescription\<close>, \<^verbatim>\<open>setRemoteDescription\<close>,
  \<^verbatim>\<open>addIceCandidate\<close>; whether \<^verbatim>\<open>gatheringPromise\<close> resolves; and
  \<^verbatim>\<open>pc.localDescription\<close> when it is read.
\<close>

record outcomes =
  createAnswer :: "description deferred"
  createOffer :: "description deferred"
  createOffer2 :: "description deferred"
  handlePlayback :: "unit deferred"
  setLocal :: "unit deferred"
  setRemote :: "unit deferred"
  addCandidate :: "unit deferred"
  gathering :: bool
  localDescription :: "description option"

text \<open>
  What waits on \<^verbatim>\<open>peerConnection.promise\<close> while it is pending, in the order of
  registration: the \<^verbatim>\<open>pc.close()\<close> callback of \<^verbatim>\<open>cleanup\<close>, and the calls of the
  signaling session that are suspended at \<^verbatim>\<open>await peerConnection.promise\<close>, with
  what they go on with.
\<close>

datatype suspended =
    CleanupClose
  | LocalDescription collaborators outcomes sdp_type signaling_setup bool
  | RemoteDescription description
  | IceCandidate

text \<open>
  The interval of \<^verbatim>\<open>setInterval\<close>: not yet set, running with its period in
  milliseconds, or cleared.
\<close>

datatype timer = NotSet | Running nat | Cleared

text \<open>
  Where the \<^verbatim>\<open>start\<close> chain is suspended: at \<^verbatim>\<open>await clientPromise\<close>, at
  \<^verbatim>\<open>await channel.startRTCSignalingSession(session)\<close>, at
  \<^verbatim>\<open>await peerConnection.promise\<close> followed by \<^verbatim>\<open>await waitConnected(pc)\<close>, or
  settled.
\<close>

datatype stage = AwaitClient | AwaitSignaling | AwaitConnected | Started | Failed

subsection \<open>The state of one bridge\<close>

record bridge =
  clientPromise :: "unit deferred"
  sessionControl :: "unit deferred"
  peerConnection :: "pc deferred"
  intercom :: "unit deferred"
  stage :: stage
  pcCloseSettled :: bool
  clientThens :: nat
  scThens :: nat
  pcThens :: "suspended list"
  icThens :: nat
  cleanups :: nat
  created :: nat
  sdp :: "string option"
  audioTrack :: "string option"
  videoTrack :: "string option"
  gotAudio :: bool
  gotVideo :: bool
  firSequenceNumber :: nat
  pictureLossInterval :: timer
  track :: bool
  destroyProcess :: "nat option"
  alive :: "nat list"
  spawned :: nat
  onicecandidate :: bool
  trace :: "effect list"

text \<open>
  \<open>clientThens\<close>, \<open>scThens\<close> and \<open>icThens\<close> count the \<^verbatim>\<open>.then\<close> callbacks
  that \<^verbatim>\<open>cleanup\<close> registered on a promise that was still pending; on
  \<^verbatim>\<open>peerConnection.promise\<close> suspended calls wait too, so \<open>pcThens\<close> is a list.  \<open>cleanups\<close> counts the executions of the body of \<^verbatim>\<open>cleanup\<close> and
  \<open>created\<close> the executions of \<^verbatim>\<open>new RTCPeerConnection\<close>; \<open>alive\<close> are the
  forwarder processes that were started and not killed, and \<open>spawned\<close> numbers them.
\<close>

definition bridge0 :: bridge where
  "bridge0 = \<lparr>clientPromise = Pending, sessionControl = Pending, peerConnection = Pending,
     intercom = Pending, stage = AwaitClient, pcCloseSettled = False,
     clientThens = 0, scThens = 0, pcThens = [], icThens = 0, cleanups = 0, created = 0,
     sdp = None, audioTrack = None, videoTrack = None,
     gotAudio = False, gotVideo = False, firSequenceNumber = 0,
     pictureLossInterval = NotSet, track = False, destroyProcess = None, alive = [],
     spawned = 0, onicecandidate = False, trace = []\<rparr>"

definition emit :: "effect list \<Rightarrow> bridge \<Rightarrow> bridge" where
  "emit es s = s\<lparr>trace := trace s @ es\<rparr>"

subsection \<open>The intercom\<close>

text \<open>
  \<^verbatim>\<open>stopIntercom\<close>: \<^verbatim>\<open>destroyProcess?.()\<close>, then \<^verbatim>\<open>sc.setPlayback\<close> with both
  flags false.  The handle is not cleared.  Calls on collaborators are taken to return.
\<close>

definition stopIntercom :: "bridge \<Rightarrow> unit deferred \<times> bridge" where
  "stopIntercom s =
     (let s1 = (case destroyProcess s of
                  None \<Rightarrow> s
                | Some p \<Rightarrow> emit [Kill p] (s\<lparr>alive := removeAll p (alive s)\<rparr>))
      in (Resolved (), emit [SetPlayback False False] s1))"

text \<open>
  \<^verbatim>\<open>startIntercom\<close>.  \<open>isAlive\<close> is \<^verbatim>\<open>isPeerConnectionAlive(pc)\<close>, \<open>convert\<close> the
  outcome of \<^verbatim>\<open>convertMediaObjectToJSON\<close> and \<open>spawn\<close> the outcome of
  \<^verbatim>\<open>startRtpForwarderProcess\<close>; a process that started gets the next number.
\<close>

definition startIntercom ::
  "bool \<Rightarrow> unit deferred \<Rightarrow> unit deferred \<Rightarrow> bridge \<Rightarrow> unit deferred \<times> bridge" where
  "startIntercom isAlive convert spawn s =
     (if \<not> isAlive then (Rejected ConnectionClosedError, s)
      else if \<not> track s then (Rejected IntercomUnsupportedError, s)
      else case convert of
        Pending \<Rightarrow> (Pending, s)
      | Rejected e \<Rightarrow> (Rejected e, s)
      | Resolved _ \<Rightarrow>
         (case spawn of
            Pending \<Rightarrow> (Pending, s)
          | Rejected e \<Rightarrow> (Rejected e, s)
          | Resolved _ \<Rightarrow>
             (let destroy = spawned s;
                  s1 = emit [Spawn destroy]
                         (s\<lparr>spawned := Suc destroy, alive := destroy # alive s\<rparr>);
                  s2 = snd (stopIntercom s1);
                  s3 = s2\<lparr>destroyProcess := Some destroy\<rparr>
              in case sessionControl s3 of
                   Pending \<Rightarrow> (Pending, s3)
                 | Rejected e \<Rightarrow> (Rejected e, s3)
                 | Resolved _ \<Rightarrow> (Resolved (), emit [SetPlayback True False] s3))))"

subsection \<open>Teardown\<close>

text \<open>
  The four \<^verbatim>\<open>.then\<close> callbacks of \<^verbatim>\<open>cleanup\<close>, each on its own promise.
\<close>

datatype action = DestroySocket | EndSessionControl | ClosePeerConnection | StopIntercomCall

fun perform :: "action \<Rightarrow> bridge \<Rightarrow> bridge" where
  "perform DestroySocket s = emit [SocketDestroy] s"
| "perform EndSessionControl s = emit [EndSession] s"
| "perform ClosePeerConnection s =
     (case peerConnection s of Resolved p \<Rightarrow> emit [PcClose (fst p)] s | _ \<Rightarrow> s)"
| "perform StopIntercomCall s = snd (stopIntercom s)"

text \<open>
  \<^verbatim>\<open>cleanup\<close>: on a resolved promise the callback runs, on a pending one it is
  registered and runs when the promise resolves, on a rejected one it never runs.
\<close>

definition cleanup :: "bridge \<Rightarrow> bridge" where
  "cleanup s =
     (let s0 = s\<lparr>cleanups := Suc (cleanups s)\<rparr>;
          s1 = (case clientPromise s0 of
                  Resolved _ \<Rightarrow> perform DestroySocket s0
                | Pending \<Rightarrow> s0\<lparr>clientThens := Suc (clientThens s0)\<rparr>
                | Rejected _ \<Rightarrow> s0);
          s2 = (case sessionControl s1 of
                  Resolved _ \<Rightarrow> perform EndSessionControl s1
                | Pending \<Rightarrow> s1\<lparr>scThens := Suc (scThens s1)\<rparr>
                | Rejected _ \<Rightarrow> s1);
          s3 = (case peerConnection s2 of
                  Resolved _ \<Rightarrow> perform ClosePeerConnection s2
                | Pending \<Rightarrow> s2\<lparr>pcThens := pcThens s2 @ [CleanupClose]\<rparr>
                | Rejected _ \<Rightarrow> s2)
      in case intercom s3 of
           Resolved _ \<Rightarrow> perform StopIntercomCall s3
         | Pending \<Rightarrow> s3\<lparr>icThens := Suc (icThens s3)\<rparr>
         | Rejected _ \<Rightarrow> s3)"

text \<open>The callbacks registered on a promise run, in order, when it resolves.\<close>

fun flush :: "nat \<Rightarrow> action \<Rightarrow> bridge \<Rightarrow> bridge" where
  "flush 0 a s = s"
| "flush (Suc n) a s = flush n a (perform a s)"

text \<open>
  \<^verbatim>\<open>start.catch\<close>: the handler rejects the three \<^verbatim>\<open>Deferred\<close>s; a settled one stays
  as it is.
\<close>

definition startCatch :: "error \<Rightarrow> bridge \<Rightarrow> bridge" where
  "startCatch e s =
     s\<lparr>sessionControl := reject e (sessionControl s),
       peerConnection := reject e (peerConnection s),
       intercom := reject e (intercom s)\<rparr>"

text \<open>
  The reactions to a rejected \<^verbatim>\<open>peerConnection.promise\<close>: the \<^verbatim>\<open>catch\<close> handler calls
  \<^verbatim>\<open>cleanup\<close>, and \<^verbatim>\<open>pcClose\<close>, rejected with it, runs \<^verbatim>\<open>finally(cleanup)\<close>.
\<close>

definition pcRejected :: "bridge \<Rightarrow> bridge" where
  "pcRejected s = cleanup (cleanup (s\<lparr>pcCloseSettled := True\<rparr>))"

subsection \<open>Sink setup\<close>

text \<open>
  \<^verbatim>\<open>handleRtspSetup\<close>; \<open>playback\<close> is the outcome of \<^verbatim>\<open>rtspServer.handlePlayback()\<close>.
\<close>

definition handleRtspSetup ::
  "collaborators \<Rightarrow> unit deferred \<Rightarrow> description \<Rightarrow> bridge \<Rightarrow> unit deferred \<times> bridge" where
  "handleRtspSetup c playback d s =
     (if dtype d \<noteq> Answer then (Rejected SetupError, s)
      else
        let text = createSdpInput c (dsdp d);
            s1 = s\<lparr>sdp := Some text\<rparr>;
            msections = parseSdp c text
        in case find (\<lambda>m. mtype m = ''audio'') msections of
             None \<Rightarrow> (Rejected TrackResolutionError, s1)
           | Some a \<Rightarrow>
              (let s2 = s1\<lparr>audioTrack := control a\<rparr>
               in case find (\<lambda>m. mtype m = ''video'') msections of
                    None \<Rightarrow> (Rejected TrackResolutionError, s2)
                  | Some v \<Rightarrow>
                      (playback, emit [HandlePlayback] (s2\<lparr>videoTrack := control v\<rparr>))))"

subsection \<open>The signaling session\<close>

text \<open>\<^verbatim>\<open>pc.localDescription || answer\<close>.\<close>

definition gathered :: "outcomes \<Rightarrow> description \<Rightarrow> description" where
  "gathered oc answer = (case localDescription oc of Some d \<Rightarrow> d | None \<Rightarrow> answer)"

text \<open>The branch \<^verbatim>\<open>type === 'answer'\<close> of \<^verbatim>\<open>createLocalDescription\<close>.\<close>

definition localAnswer ::
  "collaborators \<Rightarrow> outcomes \<Rightarrow> bool \<Rightarrow> nat \<Rightarrow> bridge \<Rightarrow> description deferred \<times> bridge" where
  "localAnswer c oc sendIceCandidate p s =
     (let s1 = emit [PcCreateAnswer p] s
      in case createAnswer oc of
           Pending \<Rightarrow> (Pending, s1)
         | Rejected e \<Rightarrow> (Rejected e, s1)
         | Resolved answer \<Rightarrow>
            (let ret = createRawResponse c answer
             in case handleRtspSetup c (handlePlayback oc) ret s1 of
                  (Pending, s2) \<Rightarrow> (Pending, s2)
                | (Rejected e, s2) \<Rightarrow> (Rejected e, s2)
                | (Resolved _, s2) \<Rightarrow>
                   (let s3 = emit [PcSetLocalDescription p answer] s2
                    in if sendIceCandidate then (Resolved ret, s3)
                       else case setLocal oc of
                              Pending \<Rightarrow> (Pending, s3)
                            | Rejected e \<Rightarrow> (Rejected e, s3)
                            | Resolved _ \<Rightarrow>
                               (if gathering oc
                                then (Resolved (createRawResponse c (gathered oc answer)), s3)
                                else (Pending, s3)))))"

text \<open>The other branch of \<^verbatim>\<open>createLocalDescription\<close>.\<close>

definition localOffer ::
  "collaborators \<Rightarrow> outcomes \<Rightarrow> bool \<Rightarrow> nat \<Rightarrow> bridge \<Rightarrow> description deferred \<times> bridge" where
  "localOffer c oc sendIceCandidate p s =
     (let s1 = emit [PcCreateOffer p] s
      in case createOffer oc of
           Pending \<Rightarrow> (Pending, s1)
         | Rejected e \<Rightarrow> (Rejected e, s1)
         | Resolved offer \<Rightarrow>
            (let s2 = emit [PcSetLocalDescription p offer] s1
             in if sendIceCandidate then (Resolved (createRawResponse c offer), s2)
                else case setLocal oc of
                       Pending \<Rightarrow> (Pending, s2)
                     | Rejected e \<Rightarrow> (Rejected e, s2)
                     | Resolved _ \<Rightarrow>
                        (if gathering oc
                         then (let s3 = emit [PcCreateOffer p] s2
                               in case createOffer2 oc of
                                    Pending \<Rightarrow> (Pending, s3)
                                  | Rejected e \<Rightarrow> (Rejected e, s3)
                                  | Resolved offer2 \<Rightarrow>
                                      (Resolved (createRawResponse c offer2), s3))
                         else (Pending, s2))))"

text \<open>
  \<^verbatim>\<open>createLocalDescription\<close> from its \<^verbatim>\<open>await peerConnection.promise\<close> on, with
  the connection the promise gave; \<open>sendIceCandidate\<close> tells whether the callback was
  supplied.
\<close>

definition withPeerConnection ::
  "collaborators \<Rightarrow> outcomes \<Rightarrow> sdp_type \<Rightarrow> signaling_setup \<Rightarrow> bool \<Rightarrow> nat \<Rightarrow> bridge
     \<Rightarrow> description deferred \<times> bridge" where
  "withPeerConnection c oc ty su sendIceCandidate p s =
     (let s2 = (if datachannel su then emit [CreateDataChannel p] s else s);
          s3 = (if sendIceCandidate then s2\<lparr>onicecandidate := True\<rparr> else s2)
      in if ty = Answer then localAnswer c oc sendIceCandidate p s3
         else localOffer c oc sendIceCandidate p s3)"

subsection \<open>Creating the peer connection and attaching the transceivers\<close>

text \<open>
  What has waited on \<^verbatim>\<open>peerConnection.promise\<close> goes on when the promise resolves,
  in the order of registration: \<^verbatim>\<open>cleanup\<close> closes the connection,
  \<^verbatim>\<open>createLocalDescription\<close> goes on as above, \<^verbatim>\<open>setRemoteDescription\<close> and
  \<^verbatim>\<open>addIceCandidate\<close> make their call on the connection.  A call of the session is
  one event of the model, and so is the rest of a suspended call.
\<close>

fun resume :: "nat \<Rightarrow> suspended \<Rightarrow> bridge \<Rightarrow> bridge" where
  "resume p CleanupClose s = emit [PcClose p] s"
| "resume p (LocalDescription c oc ty su cb) s = snd (withPeerConnection c oc ty su cb p s)"
| "resume p (RemoteDescription d) s = emit [PcSetRemoteDescription p d] s"
| "resume p IceCandidate s = emit [PcAddIceCandidate p] s"

fun resumeAll :: "nat \<Rightarrow> suspended list \<Rightarrow> bridge \<Rightarrow> bridge" where
  "resumeAll p [] s = s"
| "resumeAll p (r # rs) s = resumeAll p rs (resume p r s)"

text \<open>
  \<^verbatim>\<open>ensurePeerConnection\<close>: nothing when the \<^verbatim>\<open>Deferred\<close> is finished; otherwise a
  new \<^verbatim>\<open>RTCPeerConnection\<close> resolves it, and what has waited on the promise goes on,
  before the caller does.
\<close>

definition ensurePeerConnection :: "signaling_setup \<Rightarrow> bridge \<Rightarrow> bridge" where
  "ensurePeerConnection su s =
     (if finished (peerConnection s) then s
      else resumeAll (created s) (pcThens s)
             (s\<lparr>peerConnection := resolve (created s, configuration su) (peerConnection s),
                created := Suc (created s), pcThens := []\<rparr>))"

text \<open>
  \<^verbatim>\<open>doSetup\<close>, called without \<^verbatim>\<open>await\<close>: after \<^verbatim>\<open>ensurePeerConnection\<close> the promise is
  settled, so the rest of the body runs before the caller's own
  \<^verbatim>\<open>await peerConnection.promise\<close> resumes, or never when the promise is rejected.
  It adds the two transceivers and subscribes to \<^verbatim>\<open>onTrack\<close> of each; the
  subscriber attaches the relay of the track, which is the packet handlers below.  The
  model follows one audio and one video track of the transceivers.
\<close>

definition doSetup :: "signaling_setup \<Rightarrow> bridge \<Rightarrow> bridge" where
  "doSetup su s =
     (let s1 = ensurePeerConnection su s
      in case peerConnection s1 of
           Resolved p \<Rightarrow>
             emit [AddTransceiver (fst p) Audio, OnTrackSubscribe (fst p) Audio,
                   AddTransceiver (fst p) Video, OnTrackSubscribe (fst p) Video] s1
         | _ \<Rightarrow> s1)"

text \<open>
  The three calls of the session.  A call that finds \<^verbatim>\<open>peerConnection.promise\<close>
  pending is suspended there: it has \<open>Pending\<close> as its outcome and waits on the
  promise.
\<close>

definition createLocalDescription ::
  "collaborators \<Rightarrow> outcomes \<Rightarrow> sdp_type \<Rightarrow> signaling_setup \<Rightarrow> bool \<Rightarrow> bridge
     \<Rightarrow> description deferred \<times> bridge" where
  "createLocalDescription c oc ty su sendIceCandidate s =
     (let s1 = (if ty = Offer then doSetup su s else s)
      in case peerConnection s1 of
           Pending \<Rightarrow>
             (Pending,
              s1\<lparr>pcThens := pcThens s1 @ [LocalDescription c oc ty su sendIceCandidate]\<rparr>)
         | Rejected e \<Rightarrow> (Rejected e, s1)
         | Resolved p \<Rightarrow> withPeerConnection c oc ty su sendIceCandidate (fst p) s1)"

definition setRemoteDescription ::
  "collaborators \<Rightarrow> outcomes \<Rightarrow> description \<Rightarrow> signaling_setup \<Rightarrow> bridge
     \<Rightarrow> unit deferred \<times> bridge" where
  "setRemoteDescription c oc d su s =
     (case (if dtype d = Offer then (Resolved (), doSetup su s)
            else handleRtspSetup c (handlePlayback oc) d s) of
        (Pending, s1) \<Rightarrow> (Pending, s1)
      | (Rejected e, s1) \<Rightarrow> (Rejected e, s1)
      | (Resolved _, s1) \<Rightarrow>
         (case peerConnection s1 of
            Pending \<Rightarrow> (Pending, s1\<lparr>pcThens := pcThens s1 @ [RemoteDescription d]\<rparr>)
          | Rejected e \<Rightarrow> (Rejected e, s1)
          | Resolved p \<Rightarrow> (setRemote oc, emit [PcSetRemoteDescription (fst p) d] s1)))"

definition addIceCandidate :: "outcomes \<Rightarrow> bridge \<Rightarrow> unit deferred \<times> bridge" where
  "addIceCandidate oc s =
     (case peerConnection s of
        Pending \<Rightarrow> (Pending, s\<lparr>pcThens := pcThens s @ [IceCandidate]\<rparr>)
      | Rejected e \<Rightarrow> (Rejected e, s)
      | Resolved p \<Rightarrow> (addCandidate oc, emit [PcAddIceCandidate (fst p)] s))"

subsection \<open>The media relay and the keyframe requester\<close>

text \<open>The subscribers of \<^verbatim>\<open>onReceiveRtp\<close> and \<^verbatim>\<open>onReceiveRtcp\<close> of the audio track.\<close>

definition onAudioRtp :: "packet \<Rightarrow> bridge \<Rightarrow> bridge" where
  "onAudioRtp rtp s =
     (let s1 = (if \<not> gotAudio s then s\<lparr>gotAudio := True\<rparr> else s)
      in emit [SendTrack (audioTrack s1) (serialize rtp) False] s1)"

definition onAudioRtcp :: "packet \<Rightarrow> bridge \<Rightarrow> bridge" where
  "onAudioRtcp rtp s = emit [SendTrack (audioTrack s) (serialize rtp) True] s"

text \<open>
  The video track: the subscriber, then the \<^verbatim>\<open>once\<close> callback, which has run exactly
  when the interval is set.
\<close>

definition onVideoRtp :: "packet \<Rightarrow> bridge \<Rightarrow> bridge" where
  "onVideoRtp rtp s =
     (let s1 = (if \<not> gotVideo s then s\<lparr>gotVideo := True\<rparr> else s);
          s2 = emit [SendTrack (videoTrack s1) (serialize rtp) False] s1
      in if pictureLossInterval s2 = NotSet
         then s2\<lparr>firSequenceNumber := 0, pictureLossInterval := Running 4000\<rparr>
         else s2)"

definition onVideoRtcp :: "packet \<Rightarrow> bridge \<Rightarrow> bridge" where
  "onVideoRtcp rtp s = emit [SendTrack (videoTrack s) (serialize rtp) True] s"

text \<open>
  The callback of \<^verbatim>\<open>setInterval\<close>; the runtime calls it only while the interval runs.
  \<^verbatim>\<open>firSequenceNumber++\<close> is exact on every number below \<open>2 ^ 53\<close>.
\<close>

definition onInterval :: "bridge \<Rightarrow> bridge" where
  "onInterval s =
     (case pictureLossInterval s of
        Running ms \<Rightarrow>
          emit [SendRtcpFir (firSequenceNumber s), SendRtcpPLI]
            (s\<lparr>firSequenceNumber := Suc (firSequenceNumber s)\<rparr>)
      | _ \<Rightarrow> s)"

subsection \<open>The events of a bridge\<close>

text \<open>
  Modelled from the spec: \<^verbatim>\<open>waitClosed\<close> of ./peerconnection-util is not among the
  sources.  By the specification its promise resolves when the peer session transitions
  to closed; that transition is the event handled here.  It resolves for the interval,
  which is cleared (\<^verbatim>\<open>waitClosed(pc).then(() => clearInterval(pictureLossInterval))\<close>),
  and for \<^verbatim>\<open>pcClose\<close>, which settles once and runs \<^verbatim>\<open>finally(cleanup)\<close>.
\<close>

definition onPeerClosed :: "bridge \<Rightarrow> bridge" where
  "onPeerClosed s =
     (let s1 = (case pictureLossInterval s of
                  Running ms \<Rightarrow> s\<lparr>pictureLossInterval := Cleared\<rparr>
                | _ \<Rightarrow> s)
      in case peerConnection s1 of
           Resolved p \<Rightarrow>
             (if pcCloseSettled s1 then s1 else cleanup (s1\<lparr>pcCloseSettled := True\<rparr>))
         | _ \<Rightarrow> s1)"

text \<open>
  \<^verbatim>\<open>clientPromise\<close> resolves: the listener of the socket's close event is attached, the
  callbacks of \<^verbatim>\<open>cleanup\<close> run and \<^verbatim>\<open>start\<close> goes on to start the signaling session.
\<close>

definition onClientConnected :: "bridge \<Rightarrow> bridge" where
  "onClientConnected s =
     (if finished (clientPromise s) then s
      else flush (clientThens s) DestroySocket
             (s\<lparr>clientPromise := Resolved (), clientThens := 0,
                stage := (if stage s = AwaitClient then AwaitSignaling else stage s)\<rparr>))"

text \<open>
  The socket emits close and calls its listeners: \<^verbatim>\<open>cleanup\<close>, attached first, and
  \<^verbatim>\<open>() => closeQuiet(udp)\<close>, attached by \<^verbatim>\<open>start\<close>.  What \<^verbatim>\<open>cleanup\<close> does
  on its collaborators it does in \<^verbatim>\<open>.then\<close> callbacks, which run after the emit, so
  after the udp socket is closed.
\<close>

definition onSocketClose :: "bridge \<Rightarrow> bridge" where
  "onSocketClose s =
     (case clientPromise s of Resolved _ \<Rightarrow> cleanup (emit [CloseUdp] s) | _ \<Rightarrow> s)"

text \<open>\<^verbatim>\<open>startRTCSignalingSession\<close> resolves: \<^verbatim>\<open>sessionControl.resolve(sc)\<close>.\<close>

definition onSignalingStarted :: "bridge \<Rightarrow> bridge" where
  "onSignalingStarted s =
     (if stage s \<noteq> AwaitSignaling then s
      else if finished (sessionControl s) then s\<lparr>stage := AwaitConnected\<rparr>
      else flush (scThens s) EndSessionControl
             (s\<lparr>stage := AwaitConnected, sessionControl := Resolved (), scThens := 0\<rparr>))"

text \<open>
  \<^verbatim>\<open>waitConnected(pc)\<close> resolves: \<^verbatim>\<open>track\<close> is read (\<open>sendRtp\<close> tells whether it is
  truthy; \<^verbatim>\<open>audioTransceiver\<close> is assigned, by \<^verbatim>\<open>doSetup\<close>, whenever the peer
  connection exists) and \<^verbatim>\<open>intercom.resolve(ic)\<close> ends \<^verbatim>\<open>start\<close>.
\<close>

definition onConnected :: "bool \<Rightarrow> bridge \<Rightarrow> bridge" where
  "onConnected sendRtp s =
     (case peerConnection s of
        Resolved p \<Rightarrow>
          (if stage s \<noteq> AwaitConnected then s
           else if finished (intercom s) then s\<lparr>stage := Started, track := sendRtp\<rparr>
           else flush (icThens s) StopIntercomCall
                  (s\<lparr>stage := Started, track := sendRtp, intercom := Resolved (),
                     icThens := 0\<rparr>))
      | _ \<Rightarrow> s)"

text \<open>
  \<^verbatim>\<open>start\<close> rejects, once and only while it is pending: at its first \<^verbatim>\<open>await\<close> because
  \<^verbatim>\<open>clientPromise\<close> rejected.  \<^verbatim>\<open>start.catch\<close> runs, then the reactions to a
  \<^verbatim>\<open>peerConnection\<close> that it rejected.
\<close>

definition onStartFailed :: "error \<Rightarrow> bridge \<Rightarrow> bridge" where
  "onStartFailed e s =
     (if stage s = Started \<or> stage s = Failed then s
      else
        let pending = \<not> finished (peerConnection s);
            s1 = startCatch e
                   (s\<lparr>stage := Failed,
                      clientPromise := (if stage s = AwaitClient then reject e (clientPromise s)
                                        else clientPromise s)\<rparr>)
        in if pending then pcRejected s1 else s1)"

datatype event =
    ClientConnected
  | SocketClose
  | SignalingStarted
  | Connected bool
  | StartFailed error
  | PeerClosed
  | Interval
  | AudioRtp packet
  | AudioRtcp packet
  | VideoRtp packet
  | VideoRtcp packet
  | CreateLocalDescription outcomes sdp_type signaling_setup bool
  | SetRemoteDescription outcomes description signaling_setup
  | AddIceCandidate outcomes
  | StartIntercom bool "unit deferred" "unit deferred"
  | StopIntercom

text \<open>
  One event of the run of a bridge.  The intercom is called only once
  \<^verbatim>\<open>intercom.promise\<close> has given it out.
\<close>

fun step :: "collaborators \<Rightarrow> event \<Rightarrow> bridge \<Rightarrow> bridge" where
  "step c ClientConnected s = onClientConnected s"
| "step c SocketClose s = onSocketClose s"
| "step c SignalingStarted s = onSignalingStarted s"
| "step c (Connected sendRtp) s = onConnected sendRtp s"
| "step c (StartFailed e) s = onStartFailed e s"
| "step c PeerClosed s = onPeerClosed s"
| "step c Interval s = onInterval s"
| "step c (AudioRtp rtp) s = onAudioRtp rtp s"
| "step c (AudioRtcp rtp) s = onAudioRtcp rtp s"
| "step c (VideoRtp rtp) s = onVideoRtp rtp s"
| "step c (VideoRtcp rtp) s = onVideoRtcp rtp s"
| "step c (CreateLocalDescription oc ty su cb) s = snd (createLocalDescription c oc ty su cb s)"
| "step c (SetRemoteDescription oc d su) s = snd (setRemoteDescription c oc d su s)"
| "step c (AddIceCandidate oc) s = snd (addIceCandidate oc s)"
| "step c (StartIntercom isAlive convert spawn) s =
     (case intercom s of
        Resolved _ \<Rightarrow> snd (startIntercom isAlive convert spawn s)
      | _ \<Rightarrow> s)"
| "step c StopIntercom s =
     (case intercom s of Resolved _ \<Rightarrow> snd (stopIntercom s) | _ \<Rightarrow> s)"

fun run :: "collaborators \<Rightarrow> event list \<Rightarrow> bridge \<Rightarrow> bridge" where
  "run c [] s = s"
| "run c (ev # evs) s = run c evs (step c ev s)"
section \<open>Observations on a bridge\<close>

subsection \<open>Promises\<close>

fun rejected :: "'a deferred \<Rightarrow> bool" where
  "rejected (Rejected e) = True"
| "rejected d = False"

fun resolved :: "'a deferred \<Rightarrow> bool" where
  "resolved (Resolved v) = True"
| "resolved d = False"

subsection \<open>Teardown\<close>

text \<open>
  The settlements that call \<^verbatim>\<open>cleanup\<close>: \<^verbatim>\<open>pcClose\<close> settled (its
  \<^verbatim>\<open>finally\<close>) and \<^verbatim>\<open>peerConnection.promise\<close> rejected (its \<^verbatim>\<open>catch\<close>).
\<close>

definition settlements :: "bridge \<Rightarrow> nat" where
  "settlements s =
     (if pcCloseSettled s then 1 else 0) + (if rejected (peerConnection s) then 1 else 0)"

text \<open>
  The client is connected, and \<^verbatim>\<open>pcClose\<close>, which is chained on
  \<^verbatim>\<open>peerConnection.promise\<close>, has not settled before it.
\<close>

definition closeFollows :: "bridge \<Rightarrow> bool" where
  "closeFollows s =
     (clientPromise s = Resolved () \<and> (pcCloseSettled s \<longrightarrow> finished (peerConnection s)))"

text \<open>
  The calls of \<^verbatim>\<open>cleanup\<close> on its four collaborators: \<^verbatim>\<open>client.destroy()\<close>,
  \<^verbatim>\<open>sc.endSession()\<close>, \<^verbatim>\<open>pc.close()\<close>, and the playback state that
  \<^verbatim>\<open>stopIntercom\<close> signals.
\<close>

fun isTeardown :: "effect \<Rightarrow> bool" where
  "isTeardown SocketDestroy = True"
| "isTeardown EndSession = True"
| "isTeardown (PcClose n) = True"
| "isTeardown (SetPlayback a v) = (\<not> a \<and> \<not> v)"
| "isTeardown e = False"

fun isPcClose :: "effect \<Rightarrow> bool" where
  "isPcClose (PcClose n) = True"
| "isPcClose e = False"

fun isCleanupClose :: "suspended \<Rightarrow> bool" where
  "isCleanupClose CleanupClose = True"
| "isCleanupClose r = False"

definition teardown :: "bridge \<Rightarrow> effect list" where
  "teardown s = filter isTeardown (trace s)"

text \<open>
  The calls of \<^verbatim>\<open>stopIntercom\<close> that the users of the intercom make in a run, by
  \<^verbatim>\<open>stopIntercom\<close> itself or by a \<^verbatim>\<open>startIntercom\<close> that gets as far as its
  \<^verbatim>\<open>ic.stopIntercom()\<close>.
\<close>

fun stopsBy :: "bridge \<Rightarrow> event \<Rightarrow> nat" where
  "stopsBy s StopIntercom = (if resolved (intercom s) then 1 else 0)"
| "stopsBy s (StartIntercom isAlive convert spawn) =
     (if resolved (intercom s) \<and> isAlive \<and> track s \<and> resolved convert \<and> resolved spawn
      then 1 else 0)"
| "stopsBy s ev = 0"

fun intercomStops :: "collaborators \<Rightarrow> bridge \<Rightarrow> event list \<Rightarrow> nat" where
  "intercomStops c s [] = 0"
| "intercomStops c s (ev # evs) = stopsBy s ev + intercomStops c (step c ev s) evs"

text \<open>
  How often the four calls occur in the trace, and how many \<^verbatim>\<open>pc.close()\<close>
  callbacks wait on \<^verbatim>\<open>peerConnection.promise\<close>.
\<close>

definition destroys :: "bridge \<Rightarrow> nat" where
  "destroys s = count_list (teardown s) SocketDestroy"

definition ends :: "bridge \<Rightarrow> nat" where
  "ends s = count_list (teardown s) EndSession"

definition closes :: "bridge \<Rightarrow> nat" where
  "closes s = length (filter isPcClose (teardown s))"

definition stops :: "bridge \<Rightarrow> nat" where
  "stops s = count_list (teardown s) (SetPlayback False False)"

definition waiting :: "bridge \<Rightarrow> nat" where
  "waiting s = length (filter isCleanupClose (pcThens s))"

text \<open>
  The triggers of \<^verbatim>\<open>cleanup\<close> in a run that ends in \<open>s\<close>: the close events of the
  sink socket and the settlements above.
\<close>

definition triggers :: "event list \<Rightarrow> bridge \<Rightarrow> nat" where
  "triggers evs s = count_list evs SocketClose + settlements s"

text \<open>As many peer connections were constructed as the \<^verbatim>\<open>Deferred\<close> holds.\<close>

definition oneConnection :: "bridge \<Rightarrow> bool" where
  "oneConnection s = (created s = (if resolved (peerConnection s) then 1 else 0))"

subsection \<open>The intercom\<close>

text \<open>Only the process whose handle is installed can be alive, and it was started.\<close>

definition installed :: "bridge \<Rightarrow> bool" where
  "installed s =
     (case destroyProcess s of
        None \<Rightarrow> alive s = []
      | Some p \<Rightarrow> set (alive s) \<subseteq> {p} \<and> p < spawned s)"

fun isPlayback :: "effect \<Rightarrow> bool" where
  "isPlayback (SetPlayback a v) = True"
| "isPlayback e = False"

text \<open>\<open>a\<close> occurs in the trace before the first \<open>b\<close>.\<close>

definition precedes :: "effect \<Rightarrow> effect \<Rightarrow> effect list \<Rightarrow> bool" where
  "precedes a b es = (a \<in> set (takeWhile (\<lambda>e. e \<noteq> b) es))"

subsection \<open>Media\<close>

fun isMedia :: "effect \<Rightarrow> bool" where
  "isMedia (SendTrack ch bytes fb) = True"
| "isMedia (SendRtcpFir n) = True"
| "isMedia SendRtcpPLI = True"
| "isMedia e = False"

fun isFeedback :: "effect \<Rightarrow> bool" where
  "isFeedback (SendRtcpFir n) = True"
| "isFeedback SendRtcpPLI = True"
| "isFeedback e = False"

fun isSendTrack :: "effect \<Rightarrow> bool" where
  "isSendTrack (SendTrack ch bytes fb) = True"
| "isSendTrack e = False"

definition media :: "bridge \<Rightarrow> effect list" where
  "media s = filter isMedia (trace s)"

text \<open>What the keyframe requester has sent to the peer, and what the sink was given.\<close>

definition feedback :: "bridge \<Rightarrow> effect list" where
  "feedback s = filter isFeedback (trace s)"

definition toSink :: "bridge \<Rightarrow> effect list" where
  "toSink s = filter isSendTrack (trace s)"

text \<open>The media calls of one event, read off the handlers.\<close>

fun mediaOf :: "bridge \<Rightarrow> event \<Rightarrow> effect list" where
  "mediaOf s (AudioRtp rtp) = [SendTrack (audioTrack s) (serialize rtp) False]"
| "mediaOf s (AudioRtcp rtp) = [SendTrack (audioTrack s) (serialize rtp) True]"
| "mediaOf s (VideoRtp rtp) = [SendTrack (videoTrack s) (serialize rtp) False]"
| "mediaOf s (VideoRtcp rtp) = [SendTrack (videoTrack s) (serialize rtp) True]"
| "mediaOf s Interval =
     (case pictureLossInterval s of
        Running ms \<Rightarrow> [SendRtcpFir (firSequenceNumber s), SendRtcpPLI]
      | _ \<Rightarrow> [])"
| "mediaOf s ev = []"

text \<open>
  The specification of the relay: a packet arriving on a track is forwarded as its
  serialized bytes, to the channel the track is bound to when it arrives, RTP tagged as
  data and RTCP as feedback; no other event gives the sink a packet.
\<close>

fun forwarded :: "bridge \<Rightarrow> event \<Rightarrow> effect list" where
  "forwarded s (AudioRtp rtp) = [SendTrack (audioTrack s) (serialize rtp) False]"
| "forwarded s (AudioRtcp rtp) = [SendTrack (audioTrack s) (serialize rtp) True]"
| "forwarded s (VideoRtp rtp) = [SendTrack (videoTrack s) (serialize rtp) False]"
| "forwarded s (VideoRtcp rtp) = [SendTrack (videoTrack s) (serialize rtp) True]"
| "forwarded s ev = []"

fun relayed :: "collaborators \<Rightarrow> bridge \<Rightarrow> event list \<Rightarrow> effect list" where
  "relayed c s [] = []"
| "relayed c s (ev # evs) = forwarded s ev @ relayed c (step c ev s) evs"

text \<open>
  The specification of the keyframe requester: \<open>n\<close> firings send the pairs of a
  full intra request and a picture loss indication numbered \<open>0\<close> to \<open>n - 1\<close>.
\<close>

fun numbered :: "nat \<Rightarrow> effect list" where
  "numbered 0 = []"
| "numbered (Suc n) = numbered n @ [SendRtcpFir n, SendRtcpPLI]"

definition counted :: "bridge \<Rightarrow> bool" where
  "counted s =
     (feedback s = numbered (firSequenceNumber s) \<and>
      (pictureLossInterval s = NotSet \<longrightarrow> firSequenceNumber s = 0))"

subsection \<open>An example session\<close>

text \<open>
  A sink that parses every description into an audio section \<^verbatim>\<open>trackID=0\<close> and a
  video section \<^verbatim>\<open>trackID=1\<close>, one that finds no video section, a peer connection
  whose promises all resolve, and a remote offer answered without trickle.
\<close>

definition exampleCollaborators :: collaborators where
  "exampleCollaborators =
     \<lparr>createSdpInput = (\<lambda>text. text),
      parseSdp = (\<lambda>text. [\<lparr>mtype = ''audio'', control = Some ''trackID=0''\<rparr>,
                            \<lparr>mtype = ''video'', control = Some ''trackID=1''\<rparr>]),
      createRawResponse = (\<lambda>d. d)\<rparr>"


definition exampleOutcomes :: outcomes where
  "exampleOutcomes =
     \<lparr>createAnswer = Resolved \<lparr>dtype = Answer, dsdp = ''answer''\<rparr>,
      createOffer = Resolved \<lparr>dtype = Offer, dsdp = ''offer''\<rparr>,
      createOffer2 = Resolved \<lparr>dtype = Offer, dsdp = ''offer2''\<rparr>,
      handlePlayback = Resolved (), setLocal = Resolved (), setRemote = Resolved (),
      addCandidate = Resolved (), gathering = True,
      localDescription = Some \<lparr>dtype = Answer, dsdp = ''gathered''\<rparr>\<rparr>"

definition exampleSetup :: signaling_setup where
  "exampleSetup = \<lparr>configuration = 7, datachannel = False\<rparr>"

definition exampleOffer :: description where
  "exampleOffer = \<lparr>dtype = Offer, dsdp = ''remote''\<rparr>"

definition exampleAnswer :: description where
  "exampleAnswer = \<lparr>dtype = Answer, dsdp = ''answer''\<rparr>"

definition exampleNegotiation :: "event list" where
  "exampleNegotiation =
     [SignalingStarted,
      SetRemoteDescription exampleOutcomes exampleOffer exampleSetup,
      CreateLocalDescription exampleOutcomes Answer exampleSetup False,
      Connected True]"

definition exampleOffered :: bridge where
  "exampleOffered =
     run exampleCollaborators
       [ClientConnected, SignalingStarted,
        SetRemoteDescription exampleOutcomes exampleOffer exampleSetup] bridge0"


definition exampleReady :: bridge where
  "exampleReady = run exampleCollaborators (ClientConnected # exampleNegotiation) bridge0"

definition exampleFirst :: bridge where
  "exampleFirst = snd (startIntercom True (Resolved ()) (Resolved ()) exampleReady)"

definition exampleSecond :: bridge where
  "exampleSecond = snd (startIntercom True (Resolved ()) (Resolved ()) exampleFirst)"

definition exampleArmed :: bridge where
  "exampleArmed = step exampleCollaborators (VideoRtp (Packet [1, 2, 3])) exampleReady"



section \<open>What each handler leaves unchanged\<close>

lemma deferred_settle [simp]:
  "finished (reject e d)"
  "finished (resolve v d)"
  "rejected (reject e d) = (\<not> finished d \<or> rejected d)"
  "rejected d \<Longrightarrow> finished d"
  "finished d \<Longrightarrow> reject e d = d"
  "finished d \<Longrightarrow> resolve v d = d"
  by (cases d; simp)+

lemma resolved_settle [simp]:
  "resolved d \<Longrightarrow> finished d"
  "resolved (reject e d) = resolved d"
  "resolved d \<Longrightarrow> \<not> rejected d"
  by (cases d; simp)+

lemma emit_fields [simp]:
  "clientPromise (emit es s) = clientPromise s"
  "sessionControl (emit es s) = sessionControl s"
  "peerConnection (emit es s) = peerConnection s"
  "intercom (emit es s) = intercom s"
  "stage (emit es s) = stage s"
  "pcCloseSettled (emit es s) = pcCloseSettled s"
  "created (emit es s) = created s"
  "audioTrack (emit es s) = audioTrack s"
  "videoTrack (emit es s) = videoTrack s"
  "firSequenceNumber (emit es s) = firSequenceNumber s"
  "pictureLossInterval (emit es s) = pictureLossInterval s"
  "track (emit es s) = track s"
  "destroyProcess (emit es s) = destroyProcess s"
  "spawned (emit es s) = spawned s"
  "cleanups (emit es s) = cleanups s"
  "clientThens (emit es s) = clientThens s"
  "scThens (emit es s) = scThens s"
  "pcThens (emit es s) = pcThens s"
  "icThens (emit es s) = icThens s"
  "alive (emit es s) = alive s"
  "sdp (emit es s) = sdp s"
  "gotAudio (emit es s) = gotAudio s"
  "gotVideo (emit es s) = gotVideo s"
  "onicecandidate (emit es s) = onicecandidate s"
  "trace (emit es s) = trace s @ es"
  by (simp_all add: emit_def)

lemma stopIntercom_fields [simp]:
  "clientPromise (snd (stopIntercom s)) = clientPromise s"
  "sessionControl (snd (stopIntercom s)) = sessionControl s"
  "peerConnection (snd (stopIntercom s)) = peerConnection s"
  "intercom (snd (stopIntercom s)) = intercom s"
  "stage (snd (stopIntercom s)) = stage s"
  "pcCloseSettled (snd (stopIntercom s)) = pcCloseSettled s"
  "created (snd (stopIntercom s)) = created s"
  "audioTrack (snd (stopIntercom s)) = audioTrack s"
  "videoTrack (snd (stopIntercom s)) = videoTrack s"
  "firSequenceNumber (snd (stopIntercom s)) = firSequenceNumber s"
  "pictureLossInterval (snd (stopIntercom s)) = pictureLossInterval s"
  "track (snd (stopIntercom s)) = track s"
  "destroyProcess (snd (stopIntercom s)) = destroyProcess s"
  "spawned (snd (stopIntercom s)) = spawned s"
  "cleanups (snd (stopIntercom s)) = cleanups s"
  "clientThens (snd (stopIntercom s)) = clientThens s"
  "scThens (snd (stopIntercom s)) = scThens s"
  "pcThens (snd (stopIntercom s)) = pcThens s"
  "icThens (snd (stopIntercom s)) = icThens s"
  "alive (snd (stopIntercom s)) =
     (case destroyProcess s of None \<Rightarrow> alive s | Some p \<Rightarrow> removeAll p (alive s))"
  "trace (snd (stopIntercom s)) =
     trace s @ (case destroyProcess s of None \<Rightarrow> [] | Some p \<Rightarrow> [Kill p])
       @ [SetPlayback False False]"
  by (simp_all add: stopIntercom_def split: option.splits)

lemma perform_fields [simp]:
  "clientPromise (perform a s) = clientPromise s"
  "sessionControl (perform a s) = sessionControl s"
  "peerConnection (perform a s) = peerConnection s"
  "intercom (perform a s) = intercom s"
  "stage (perform a s) = stage s"
  "pcCloseSettled (perform a s) = pcCloseSettled s"
  "created (perform a s) = created s"
  "audioTrack (perform a s) = audioTrack s"
  "videoTrack (perform a s) = videoTrack s"
  "firSequenceNumber (perform a s) = firSequenceNumber s"
  "pictureLossInterval (perform a s) = pictureLossInterval s"
  "track (perform a s) = track s"
  "destroyProcess (perform a s) = destroyProcess s"
  "spawned (perform a s) = spawned s"
  "cleanups (perform a s) = cleanups s"
  "clientThens (perform a s) = clientThens s"
  "scThens (perform a s) = scThens s"
  "pcThens (perform a s) = pcThens s"
  "icThens (perform a s) = icThens s"
  by (cases a; simp split: deferred.splits)+

lemma flush_fields [simp]:
  "clientPromise (flush n a s) = clientPromise s"
  "sessionControl (flush n a s) = sessionControl s"
  "peerConnection (flush n a s) = peerConnection s"
  "intercom (flush n a s) = intercom s"
  "stage (flush n a s) = stage s"
  "pcCloseSettled (flush n a s) = pcCloseSettled s"
  "created (flush n a s) = created s"
  "audioTrack (flush n a s) = audioTrack s"
  "videoTrack (flush n a s) = videoTrack s"
  "firSequenceNumber (flush n a s) = firSequenceNumber s"
  "pictureLossInterval (flush n a s) = pictureLossInterval s"
  "track (flush n a s) = track s"
  "destroyProcess (flush n a s) = destroyProcess s"
  "spawned (flush n a s) = spawned s"
  "cleanups (flush n a s) = cleanups s"
  "clientThens (flush n a s) = clientThens s"
  "scThens (flush n a s) = scThens s"
  "pcThens (flush n a s) = pcThens s"
  "icThens (flush n a s) = icThens s"
  by (induction n a s rule: flush.induct; simp)+

lemma cleanup_fields [simp]:
  "clientPromise (cleanup s) = clientPromise s"
  "sessionControl (cleanup s) = sessionControl s"
  "peerConnection (cleanup s) = peerConnection s"
  "intercom (cleanup s) = intercom s"
  "stage (cleanup s) = stage s"
  "pcCloseSettled (cleanup s) = pcCloseSettled s"
  "created (cleanup s) = created s"
  "audioTrack (cleanup s) = audioTrack s"
  "videoTrack (cleanup s) = videoTrack s"
  "firSequenceNumber (cleanup s) = firSequenceNumber s"
  "pictureLossInterval (cleanup s) = pictureLossInterval s"
  "track (cleanup s) = track s"
  "destroyProcess (cleanup s) = destroyProcess s"
  "spawned (cleanup s) = spawned s"
  "cleanups (cleanup s) = Suc (cleanups s)"
  by (simp_all add: cleanup_def Let_def split: deferred.splits)

lemma perform_alive: "set (alive (perform a s)) \<subseteq> set (alive s)"
  by (cases a) (auto split: deferred.splits option.splits)

lemma flush_alive: "set (alive (flush n a s)) \<subseteq> set (alive s)"
proof (induction n a s rule: flush.induct)
  case (1 a s)
  show ?case by simp
next
  case (2 n a s)
  then show ?case using perform_alive [of a s] by auto
qed

lemma cleanup_alive: "set (alive (cleanup s)) \<subseteq> set (alive s)"
  by (auto simp: cleanup_def Let_def split: deferred.splits option.splits)

lemma stopIntercom_alive: "set (alive (snd (stopIntercom s))) \<subseteq> set (alive s)"
  by (auto split: option.splits)

lemma handleRtspSetup_fields [simp]:
  "clientPromise (snd (handleRtspSetup c pb d s)) = clientPromise s"
  "sessionControl (snd (handleRtspSetup c pb d s)) = sessionControl s"
  "peerConnection (snd (handleRtspSetup c pb d s)) = peerConnection s"
  "intercom (snd (handleRtspSetup c pb d s)) = intercom s"
  "stage (snd (handleRtspSetup c pb d s)) = stage s"
  "pcCloseSettled (snd (handleRtspSetup c pb d s)) = pcCloseSettled s"
  "created (snd (handleRtspSetup c pb d s)) = created s"
  "firSequenceNumber (snd (handleRtspSetup c pb d s)) = firSequenceNumber s"
  "pictureLossInterval (snd (handleRtspSetup c pb d s)) = pictureLossInterval s"
  "track (snd (handleRtspSetup c pb d s)) = track s"
  "destroyProcess (snd (handleRtspSetup c pb d s)) = destroyProcess s"
  "spawned (snd (handleRtspSetup c pb d s)) = spawned s"
  "cleanups (snd (handleRtspSetup c pb d s)) = cleanups s"
  "clientThens (snd (handleRtspSetup c pb d s)) = clientThens s"
  "scThens (snd (handleRtspSetup c pb d s)) = scThens s"
  "pcThens (snd (handleRtspSetup c pb d s)) = pcThens s"
  "icThens (snd (handleRtspSetup c pb d s)) = icThens s"
  "alive (snd (handleRtspSetup c pb d s)) = alive s"
  by (simp_all add: handleRtspSetup_def Let_def split: option.splits)

lemma localAnswer_fields [simp]:
  "clientPromise (snd (localAnswer c oc cb p s)) = clientPromise s"
  "sessionControl (snd (localAnswer c oc cb p s)) = sessionControl s"
  "peerConnection (snd (localAnswer c oc cb p s)) = peerConnection s"
  "intercom (snd (localAnswer c oc cb p s)) = intercom s"
  "stage (snd (localAnswer c oc cb p s)) = stage s"
  "pcCloseSettled (snd (localAnswer c oc cb p s)) = pcCloseSettled s"
  "created (snd (localAnswer c oc cb p s)) = created s"
  "firSequenceNumber (snd (localAnswer c oc cb p s)) = firSequenceNumber s"
  "pictureLossInterval (snd (localAnswer c oc cb p s)) = pictureLossInterval s"
  "track (snd (localAnswer c oc cb p s)) = track s"
  "destroyProcess (snd (localAnswer c oc cb p s)) = destroyProcess s"
  "spawned (snd (localAnswer c oc cb p s)) = spawned s"
  "cleanups (snd (localAnswer c oc cb p s)) = cleanups s"
  "clientThens (snd (localAnswer c oc cb p s)) = clientThens s"
  "scThens (snd (localAnswer c oc cb p s)) = scThens s"
  "pcThens (snd (localAnswer c oc cb p s)) = pcThens s"
  "icThens (snd (localAnswer c oc cb p s)) = icThens s"
  "alive (snd (localAnswer c oc cb p s)) = alive s"
  by (simp_all add: localAnswer_def Let_def split_beta split: deferred.splits)

lemma localOffer_fields [simp]:
  "clientPromise (snd (localOffer c oc cb p s)) = clientPromise s"
  "sessionControl (snd (localOffer c oc cb p s)) = sessionControl s"
  "peerConnection (snd (localOffer c oc cb p s)) = peerConnection s"
  "intercom (snd (localOffer c oc cb p s)) = intercom s"
  "stage (snd (localOffer c oc cb p s)) = stage s"
  "pcCloseSettled (snd (localOffer c oc cb p s)) = pcCloseSettled s"
  "created (snd (localOffer c oc cb p s)) = created s"
  "audioTrack (snd (localOffer c oc cb p s)) = audioTrack s"
  "videoTrack (snd (localOffer c oc cb p s)) = videoTrack s"
  "firSequenceNumber (snd (localOffer c oc cb p s)) = firSequenceNumber s"
  "pictureLossInterval (snd (localOffer c oc cb p s)) = pictureLossInterval s"
  "track (snd (localOffer c oc cb p s)) = track s"
  "destroyProcess (snd (localOffer c oc cb p s)) = destroyProcess s"
  "spawned (snd (localOffer c oc cb p s)) = spawned s"
  "cleanups (snd (localOffer c oc cb p s)) = cleanups s"
  "clientThens (snd (localOffer c oc cb p s)) = clientThens s"
  "scThens (snd (localOffer c oc cb p s)) = scThens s"
  "pcThens (snd (localOffer c oc cb p s)) = pcThens s"
  "icThens (snd (localOffer c oc cb p s)) = icThens s"
  "alive (snd (localOffer c oc cb p s)) = alive s"
  by (simp_all add: localOffer_def Let_def split: deferred.splits)

lemma withPeerConnection_fields [simp]:
  "clientPromise (snd (withPeerConnection c oc ty su cb p s)) = clientPromise s"
  "sessionControl (snd (withPeerConnection c oc ty su cb p s)) = sessionControl s"
  "peerConnection (snd (withPeerConnection c oc ty su cb p s)) = peerConnection s"
  "intercom (snd (withPeerConnection c oc ty su cb p s)) = intercom s"
  "stage (snd (withPeerConnection c oc ty su cb p s)) = stage s"
  "pcCloseSettled (snd (withPeerConnection c oc ty su cb p s)) = pcCloseSettled s"
  "created (snd (withPeerConnection c oc ty su cb p s)) = created s"
  "firSequenceNumber (snd (withPeerConnection c oc ty su cb p s)) = firSequenceNumber s"
  "pictureLossInterval (snd (withPeerConnection c oc ty su cb p s)) = pictureLossInterval s"
  "track (snd (withPeerConnection c oc ty su cb p s)) = track s"
  "destroyProcess (snd (withPeerConnection c oc ty su cb p s)) = destroyProcess s"
  "spawned (snd (withPeerConnection c oc ty su cb p s)) = spawned s"
  "cleanups (snd (withPeerConnection c oc ty su cb p s)) = cleanups s"
  "clientThens (snd (withPeerConnection c oc ty su cb p s)) = clientThens s"
  "scThens (snd (withPeerConnection c oc ty su cb p s)) = scThens s"
  "pcThens (snd (withPeerConnection c oc ty su cb p s)) = pcThens s"
  "icThens (snd (withPeerConnection c oc ty su cb p s)) = icThens s"
  "alive (snd (withPeerConnection c oc ty su cb p s)) = alive s"
  by (simp_all add: withPeerConnection_def Let_def)

lemma resume_fields [simp]:
  "clientPromise (resume p r s) = clientPromise s"
  "sessionControl (resume p r s) = sessionControl s"
  "peerConnection (resume p r s) = peerConnection s"
  "intercom (resume p r s) = intercom s"
  "stage (resume p r s) = stage s"
  "pcCloseSettled (resume p r s) = pcCloseSettled s"
  "created (resume p r s) = created s"
  "firSequenceNumber (resume p r s) = firSequenceNumber s"
  "pictureLossInterval (resume p r s) = pictureLossInterval s"
  "track (resume p r s) = track s"
  "destroyProcess (resume p r s) = destroyProcess s"
  "spawned (resume p r s) = spawned s"
  "cleanups (resume p r s) = cleanups s"
  "clientThens (resume p r s) = clientThens s"
  "scThens (resume p r s) = scThens s"
  "pcThens (resume p r s) = pcThens s"
  "icThens (resume p r s) = icThens s"
  "alive (resume p r s) = alive s"
  by (cases r; simp)+

lemma resumeAll_fields [simp]:
  "clientPromise (resumeAll p rs s) = clientPromise s"
  "sessionControl (resumeAll p rs s) = sessionControl s"
  "peerConnection (resumeAll p rs s) = peerConnection s"
  "intercom (resumeAll p rs s) = intercom s"
  "stage (resumeAll p rs s) = stage s"
  "pcCloseSettled (resumeAll p rs s) = pcCloseSettled s"
  "created (resumeAll p rs s) = created s"
  "firSequenceNumber (resumeAll p rs s) = firSequenceNumber s"
  "pictureLossInterval (resumeAll p rs s) = pictureLossInterval s"
  "track (resumeAll p rs s) = track s"
  "destroyProcess (resumeAll p rs s) = destroyProcess s"
  "spawned (resumeAll p rs s) = spawned s"
  "cleanups (resumeAll p rs s) = cleanups s"
  "clientThens (resumeAll p rs s) = clientThens s"
  "scThens (resumeAll p rs s) = scThens s"
  "pcThens (resumeAll p rs s) = pcThens s"
  "icThens (resumeAll p rs s) = icThens s"
  "alive (resumeAll p rs s) = alive s"
  by (induction rs arbitrary: s; simp del: resume.simps)+

lemma ensurePeerConnection_fields [simp]:
  "clientPromise (ensurePeerConnection su s) = clientPromise s"
  "sessionControl (ensurePeerConnection su s) = sessionControl s"
  "intercom (ensurePeerConnection su s) = intercom s"
  "stage (ensurePeerConnection su s) = stage s"
  "pcCloseSettled (ensurePeerConnection su s) = pcCloseSettled s"
  "firSequenceNumber (ensurePeerConnection su s) = firSequenceNumber s"
  "pictureLossInterval (ensurePeerConnection su s) = pictureLossInterval s"
  "track (ensurePeerConnection su s) = track s"
  "destroyProcess (ensurePeerConnection su s) = destroyProcess s"
  "spawned (ensurePeerConnection su s) = spawned s"
  "cleanups (ensurePeerConnection su s) = cleanups s"
  "clientThens (ensurePeerConnection su s) = clientThens s"
  "scThens (ensurePeerConnection su s) = scThens s"
  "icThens (ensurePeerConnection su s) = icThens s"
  "alive (ensurePeerConnection su s) = alive s"
  by (simp_all add: ensurePeerConnection_def)

lemma doSetup_fields [simp]:
  "clientPromise (doSetup su s) = clientPromise s"
  "sessionControl (doSetup su s) = sessionControl s"
  "intercom (doSetup su s) = intercom s"
  "stage (doSetup su s) = stage s"
  "pcCloseSettled (doSetup su s) = pcCloseSettled s"
  "firSequenceNumber (doSetup su s) = firSequenceNumber s"
  "pictureLossInterval (doSetup su s) = pictureLossInterval s"
  "track (doSetup su s) = track s"
  "destroyProcess (doSetup su s) = destroyProcess s"
  "spawned (doSetup su s) = spawned s"
  "cleanups (doSetup su s) = cleanups s"
  "clientThens (doSetup su s) = clientThens s"
  "scThens (doSetup su s) = scThens s"
  "icThens (doSetup su s) = icThens s"
  "alive (doSetup su s) = alive s"
  by (simp_all add: doSetup_def Let_def split: deferred.splits)

lemma createLocalDescription_fields [simp]:
  "clientPromise (snd (createLocalDescription c oc ty su cb s)) = clientPromise s"
  "sessionControl (snd (createLocalDescription c oc ty su cb s)) = sessionControl s"
  "intercom (snd (createLocalDescription c oc ty su cb s)) = intercom s"
  "stage (snd (createLocalDescription c oc ty su cb s)) = stage s"
  "pcCloseSettled (snd (createLocalDescription c oc ty su cb s)) = pcCloseSettled s"
  "firSequenceNumber (snd (createLocalDescription c oc ty su cb s)) = firSequenceNumber s"
  "pictureLossInterval (snd (createLocalDescription c oc ty su cb s)) = pictureLossInterval s"
  "track (snd (createLocalDescription c oc ty su cb s)) = track s"
  "destroyProcess (snd (createLocalDescription c oc ty su cb s)) = destroyProcess s"
  "spawned (snd (createLocalDescription c oc ty su cb s)) = spawned s"
  "cleanups (snd (createLocalDescription c oc ty su cb s)) = cleanups s"
  "clientThens (snd (createLocalDescription c oc ty su cb s)) = clientThens s"
  "scThens (snd (createLocalDescription c oc ty su cb s)) = scThens s"
  "icThens (snd (createLocalDescription c oc ty su cb s)) = icThens s"
  "alive (snd (createLocalDescription c oc ty su cb s)) = alive s"
  by (simp_all add: createLocalDescription_def Let_def split: deferred.splits)

lemma setRemoteDescription_fields [simp]:
  "clientPromise (snd (setRemoteDescription c oc d su s)) = clientPromise s"
  "sessionControl (snd (setRemoteDescription c oc d su s)) = sessionControl s"
  "intercom (snd (setRemoteDescription c oc d su s)) = intercom s"
  "stage (snd (setRemoteDescription c oc d su s)) = stage s"
  "pcCloseSettled (snd (setRemoteDescription c oc d su s)) = pcCloseSettled s"
  "firSequenceNumber (snd (setRemoteDescription c oc d su s)) = firSequenceNumber s"
  "pictureLossInterval (snd (setRemoteDescription c oc d su s)) = pictureLossInterval s"
  "track (snd (setRemoteDescription c oc d su s)) = track s"
  "destroyProcess (snd (setRemoteDescription c oc d su s)) = destroyProcess s"
  "spawned (snd (setRemoteDescription c oc d su s)) = spawned s"
  "cleanups (snd (setRemoteDescription c oc d su s)) = cleanups s"
  "clientThens (snd (setRemoteDescription c oc d su s)) = clientThens s"
  "scThens (snd (setRemoteDescription c oc d su s)) = scThens s"
  "icThens (snd (setRemoteDescription c oc d su s)) = icThens s"
  "alive (snd (setRemoteDescription c oc d su s)) = alive s"
  by (simp_all add: setRemoteDescription_def Let_def split_beta split: deferred.splits)

lemma addIceCandidate_fields [simp]:
  "clientPromise (snd (addIceCandidate oc s)) = clientPromise s"
  "sessionControl (snd (addIceCandidate oc s)) = sessionControl s"
  "peerConnection (snd (addIceCandidate oc s)) = peerConnection s"
  "intercom (snd (addIceCandidate oc s)) = intercom s"
  "stage (snd (addIceCandidate oc s)) = stage s"
  "pcCloseSettled (snd (addIceCandidate oc s)) = pcCloseSettled s"
  "created (snd (addIceCandidate oc s)) = created s"
  "audioTrack (snd (addIceCandidate oc s)) = audioTrack s"
  "videoTrack (snd (addIceCandidate oc s)) = videoTrack s"
  "firSequenceNumber (snd (addIceCandidate oc s)) = firSequenceNumber s"
  "pictureLossInterval (snd (addIceCandidate oc s)) = pictureLossInterval s"
  "track (snd (addIceCandidate oc s)) = track s"
  "destroyProcess (snd (addIceCandidate oc s)) = destroyProcess s"
  "spawned (snd (addIceCandidate oc s)) = spawned s"
  "cleanups (snd (addIceCandidate oc s)) = cleanups s"
  "clientThens (snd (addIceCandidate oc s)) = clientThens s"
  "scThens (snd (addIceCandidate oc s)) = scThens s"
  "icThens (snd (addIceCandidate oc s)) = icThens s"
  "alive (snd (addIceCandidate oc s)) = alive s"
  by (simp_all add: addIceCandidate_def split: deferred.splits)

lemma startIntercom_fields [simp]:
  "clientPromise (snd (startIntercom a cv sp s)) = clientPromise s"
  "sessionControl (snd (startIntercom a cv sp s)) = sessionControl s"
  "peerConnection (snd (startIntercom a cv sp s)) = peerConnection s"
  "intercom (snd (startIntercom a cv sp s)) = intercom s"
  "stage (snd (startIntercom a cv sp s)) = stage s"
  "pcCloseSettled (snd (startIntercom a cv sp s)) = pcCloseSettled s"
  "created (snd (startIntercom a cv sp s)) = created s"
  "audioTrack (snd (startIntercom a cv sp s)) = audioTrack s"
  "videoTrack (snd (startIntercom a cv sp s)) = videoTrack s"
  "firSequenceNumber (snd (startIntercom a cv sp s)) = firSequenceNumber s"
  "pictureLossInterval (snd (startIntercom a cv sp s)) = pictureLossInterval s"
  "track (snd (startIntercom a cv sp s)) = track s"
  "cleanups (snd (startIntercom a cv sp s)) = cleanups s"
  "clientThens (snd (startIntercom a cv sp s)) = clientThens s"
  "scThens (snd (startIntercom a cv sp s)) = scThens s"
  "pcThens (snd (startIntercom a cv sp s)) = pcThens s"
  "icThens (snd (startIntercom a cv sp s)) = icThens s"
  by (simp_all add: startIntercom_def Let_def split: deferred.splits)

lemma run_append: "run c (xs @ ys) s = run c ys (run c xs s)"
  by (induction xs arbitrary: s) simp_all

section \<open>The example session, evaluated\<close>

lemma exampleOffered_eq:
  "exampleOffered =
     \<lparr>clientPromise = Resolved (), sessionControl = Resolved (),
      peerConnection = Resolved (0, 7), intercom = Pending, stage = AwaitConnected,
      pcCloseSettled = False, clientThens = 0, scThens = 0, pcThens = [], icThens = 0,
      cleanups = 0, created = 1, sdp = None,
      audioTrack = None, videoTrack = None, gotAudio = False, gotVideo = False,
      firSequenceNumber = 0, pictureLossInterval = NotSet, track = False,
      destroyProcess = None, alive = [], spawned = 0, onicecandidate = False,
      trace = [AddTransceiver 0 Audio, OnTrackSubscribe 0 Audio,
               AddTransceiver 0 Video, OnTrackSubscribe 0 Video,
               PcSetRemoteDescription 0 \<lparr>dtype = Offer, dsdp = ''remote''\<rparr>]\<rparr>"
  by (simp add: exampleOffered_def exampleCollaborators_def exampleOutcomes_def
      exampleSetup_def exampleOffer_def bridge0_def onClientConnected_def
      onSignalingStarted_def setRemoteDescription_def doSetup_def ensurePeerConnection_def
      emit_def Let_def)

lemma exampleReady_eq:
  "exampleReady =
     \<lparr>clientPromise = Resolved (), sessionControl = Resolved (),
      peerConnection = Resolved (0, 7), intercom = Resolved (), stage = Started,
      pcCloseSettled = False, clientThens = 0, scThens = 0, pcThens = [], icThens = 0,
      cleanups = 0, created = 1, sdp = Some ''answer'',
      audioTrack = Some ''trackID=0'', videoTrack = Some ''trackID=1'',
      gotAudio = False, gotVideo = False, firSequenceNumber = 0,
      pictureLossInterval = NotSet, track = True, destroyProcess = None, alive = [],
      spawned = 0, onicecandidate = False,
      trace = [AddTransceiver 0 Audio, OnTrackSubscribe 0 Audio,
               AddTransceiver 0 Video, OnTrackSubscribe 0 Video,
               PcSetRemoteDescription 0 \<lparr>dtype = Offer, dsdp = ''remote''\<rparr>,
               PcCreateAnswer 0, HandlePlayback,
               PcSetLocalDescription 0 \<lparr>dtype = Answer, dsdp = ''answer''\<rparr>]\<rparr>"
  by (simp add: exampleReady_def exampleNegotiation_def exampleCollaborators_def
      exampleOutcomes_def exampleSetup_def exampleOffer_def bridge0_def onClientConnected_def
      onSignalingStarted_def setRemoteDescription_def doSetup_def ensurePeerConnection_def
      createLocalDescription_def withPeerConnection_def localAnswer_def handleRtspSetup_def
      onConnected_def
      emit_def Let_def)

lemma exampleFirst_eq:
  "startIntercom True (Resolved ()) (Resolved ()) exampleReady = (Resolved (), exampleFirst)"
  "alive exampleFirst = [0]"
  "spawned exampleFirst = 1"
  "destroyProcess exampleFirst = Some 0"
  "track exampleFirst"
  "sessionControl exampleFirst = Resolved ()"
  "trace exampleFirst =
     trace exampleReady @ [Spawn 0, SetPlayback False False, SetPlayback True False]"
  by (simp_all add: exampleFirst_def exampleReady_eq startIntercom_def stopIntercom_def
      emit_def Let_def)

lemma exampleSecond_eq:
  "startIntercom True (Resolved ()) (Resolved ()) exampleFirst = (Resolved (), exampleSecond)"
  "alive exampleSecond = [1]"
  "trace exampleSecond =
     trace exampleFirst @ [Spawn 1, Kill 0, SetPlayback False False, SetPlayback True False]"
  by (simp_all add: exampleSecond_def exampleFirst_eq startIntercom_def Let_def)

lemma exampleClosed_eq:
  "cleanups (run exampleCollaborators [PeerClosed, SocketClose] exampleReady) = 2"
  "pcCloseSettled (run exampleCollaborators [PeerClosed, SocketClose] exampleReady)"
  "peerConnection (run exampleCollaborators [PeerClosed, SocketClose] exampleReady) =
     Resolved (0, 7)"
  "sessionControl (run exampleCollaborators [PeerClosed, SocketClose] exampleReady) =
     Resolved ()"
  "intercom (run exampleCollaborators [PeerClosed, SocketClose] exampleReady) = Resolved ()"
  "trace (run exampleCollaborators [PeerClosed, SocketClose] exampleReady) =
     trace exampleReady @
     [SocketDestroy, EndSession, PcClose 0, SetPlayback False False, CloseUdp,
      SocketDestroy, EndSession, PcClose 0, SetPlayback False False]"
  by (simp_all add: exampleReady_eq onPeerClosed_def onSocketClose_def cleanup_def
      stopIntercom_def emit_def Let_def)


lemma exampleArmed_eq:
  "pictureLossInterval exampleArmed = Running 4000"
  "firSequenceNumber exampleArmed = 0"
  "trace exampleArmed = trace exampleReady @ [SendTrack (Some ''trackID=1'') [1, 2, 3] False]"
  by (simp_all add: exampleArmed_def exampleReady_eq onVideoRtp_def Let_def emit_def)

section \<open>Invariants of a run\<close>

subsection \<open>The intercom handle\<close>

lemma removeAll_only: "set xs \<subseteq> {x} \<Longrightarrow> removeAll x xs = []"
  by (induction xs) auto

lemma installed_shrink:
  assumes "installed s" "set (alive s') \<subseteq> set (alive s)"
    "destroyProcess s' = destroyProcess s" "spawned s' = spawned s"
  shows "installed s'"
  using assms by (auto simp: installed_def split: option.splits)

lemma startIntercom_installed:
  assumes "installed s"
  shows "installed (snd (startIntercom isAlive convert spawn s))"
  using assms
  by (auto simp: installed_def startIntercom_def Let_def split: deferred.splits option.splits)

lemma startIntercom_resolved:
  assumes "startIntercom isAlive convert spawn s = (Resolved (), s')"
  shows "trace s' = trace s @ [Spawn (spawned s)]
           @ (case destroyProcess s of None \<Rightarrow> [] | Some p \<Rightarrow> [Kill p])
           @ [SetPlayback False False, SetPlayback True False]"
    and "destroyProcess s' = Some (spawned s)"
    and "spawned s' = Suc (spawned s)"
    and "alive s' = (case destroyProcess s of
                       None \<Rightarrow> spawned s # alive s
                     | Some p \<Rightarrow> removeAll p (spawned s # alive s))"
  using assms
  by (auto simp: startIntercom_def Let_def split: if_splits deferred.splits option.splits)

lemma handlers_alive:
  "set (alive (onClientConnected s)) \<subseteq> set (alive s)"
  "set (alive (onSocketClose s)) \<subseteq> set (alive s)"
  "set (alive (onSignalingStarted s)) \<subseteq> set (alive s)"
  "set (alive (onConnected b s)) \<subseteq> set (alive s)"
  "set (alive (onStartFailed e s)) \<subseteq> set (alive s)"
  "set (alive (onPeerClosed s)) \<subseteq> set (alive s)"
  by (auto simp: onClientConnected_def onSocketClose_def onSignalingStarted_def onConnected_def
        onStartFailed_def pcRejected_def startCatch_def onPeerClosed_def Let_def
      split: deferred.splits timer.splits
      dest!: subsetD [OF flush_alive] subsetD [OF cleanup_alive])

lemma handlers_intercom_fields:
  "destroyProcess (onClientConnected s) = destroyProcess s"
  "destroyProcess (onSocketClose s) = destroyProcess s"
  "destroyProcess (onSignalingStarted s) = destroyProcess s"
  "destroyProcess (onConnected b s) = destroyProcess s"
  "destroyProcess (onStartFailed e s) = destroyProcess s"
  "destroyProcess (onPeerClosed s) = destroyProcess s"
  "spawned (onClientConnected s) = spawned s"
  "spawned (onSocketClose s) = spawned s"
  "spawned (onSignalingStarted s) = spawned s"
  "spawned (onConnected b s) = spawned s"
  "spawned (onStartFailed e s) = spawned s"
  "spawned (onPeerClosed s) = spawned s"
  by (simp_all add: onClientConnected_def onSocketClose_def onSignalingStarted_def
        onConnected_def onStartFailed_def pcRejected_def startCatch_def onPeerClosed_def Let_def
      split: deferred.splits timer.splits)

lemma step_installed:
  assumes "installed s"
  shows "installed (step c ev s)"
proof (cases ev)
  case (StartIntercom a cv sp)
  then show ?thesis using startIntercom_installed [OF assms] assms
    by (simp split: deferred.splits)
next
  case StopIntercom
  then show ?thesis using installed_shrink [OF assms stopIntercom_alive] assms
    by (simp split: deferred.splits)
qed (auto intro!: installed_shrink [OF assms] handlers_alive
       simp: handlers_intercom_fields onInterval_def onAudioRtp_def onAudioRtcp_def
         onVideoRtp_def onVideoRtcp_def Let_def split: timer.splits)

lemma run_installed: "installed s \<Longrightarrow> installed (run c evs s)"
  by (induction evs arbitrary: s) (simp_all add: step_installed)

lemma installed_bridge0: "installed bridge0"
  by (simp add: installed_def bridge0_def)

subsection \<open>The peer connection\<close>

lemma ensurePeerConnection_cases:
  "finished (peerConnection s) \<Longrightarrow> ensurePeerConnection su s = s"
  "peerConnection s = Pending \<Longrightarrow>
     peerConnection (ensurePeerConnection su s) = Resolved (created s, configuration su) \<and>
     created (ensurePeerConnection su s) = Suc (created s)"
  by (simp_all add: ensurePeerConnection_def)

lemma doSetup_peerConnection:
  "peerConnection (doSetup su s) =
     (if finished (peerConnection s) then peerConnection s
      else Resolved (created s, configuration su))"
  "created (doSetup su s) = (if finished (peerConnection s) then created s else Suc (created s))"
  by (cases "peerConnection s";
      simp add: doSetup_def ensurePeerConnection_cases Let_def split: deferred.splits)+

lemma createLocalDescription_peerConnection:
  "peerConnection (snd (createLocalDescription c oc ty su cb s)) =
     (if ty = Offer \<and> \<not> finished (peerConnection s) then Resolved (created s, configuration su)
      else peerConnection s)"
  "created (snd (createLocalDescription c oc ty su cb s)) =
     (if ty = Offer \<and> \<not> finished (peerConnection s) then Suc (created s) else created s)"
  by (auto simp: createLocalDescription_def Let_def doSetup_peerConnection split: deferred.splits)

lemma setRemoteDescription_peerConnection:
  "peerConnection (snd (setRemoteDescription c oc d su s)) =
     (if dtype d = Offer \<and> \<not> finished (peerConnection s)
      then Resolved (created s, configuration su) else peerConnection s)"
  "created (snd (setRemoteDescription c oc d su s)) =
     (if dtype d = Offer \<and> \<not> finished (peerConnection s) then Suc (created s) else created s)"
  by (auto simp: setRemoteDescription_def Let_def split_beta doSetup_peerConnection
      split: deferred.splits)

lemmas handler_defs =
  onClientConnected_def onSocketClose_def onSignalingStarted_def onConnected_def
  onStartFailed_def pcRejected_def startCatch_def onPeerClosed_def onInterval_def
  onAudioRtp_def onAudioRtcp_def onVideoRtp_def onVideoRtcp_def Let_def
  createLocalDescription_peerConnection setRemoteDescription_peerConnection

lemma step_peerConnection_settled:
  assumes "finished (peerConnection s)"
  shows "peerConnection (step c ev s) = peerConnection s \<and> created (step c ev s) = created s"
  using assms
  by (cases ev) (auto simp: handler_defs split: deferred.splits timer.splits if_splits)

lemma step_oneConnection:
  assumes "oneConnection s"
  shows "oneConnection (step c ev s)"
proof (cases "finished (peerConnection s)")
  case True
  then show ?thesis using assms step_peerConnection_settled [OF True, of c ev]
    by (simp add: oneConnection_def)
next
  case False
  then have p: "peerConnection s = Pending" by (cases "peerConnection s") simp_all
  with assms have z: "created s = 0" by (simp add: oneConnection_def)
  show ?thesis using p z
    by (cases ev)
       (auto simp: oneConnection_def handler_defs split: deferred.splits timer.splits if_splits)
qed

lemma run_oneConnection: "oneConnection s \<Longrightarrow> oneConnection (run c evs s)"
  by (induction evs arbitrary: s) (simp_all add: step_oneConnection)

lemma oneConnection_bridge0: "oneConnection bridge0"
  by (simp add: oneConnection_def bridge0_def)

lemma run_peerConnection_settled:
  "finished (peerConnection s) \<Longrightarrow> peerConnection (run c evs s) = peerConnection s"
proof (induction evs arbitrary: s)
  case Nil
  then show ?case by simp
next
  case (Cons ev evs)
  have same: "peerConnection (step c ev s) = peerConnection s"
    using step_peerConnection_settled [OF Cons.prems] by simp
  with Cons.prems have "finished (peerConnection (step c ev s))" by simp
  from Cons.IH [OF this] same show ?case by simp
qed

subsection \<open>The executions of cleanup\<close>

lemma step_closeFollows:
  assumes "closeFollows s"
  shows "closeFollows (step c ev s)"
  using assms
  by (cases ev)
     (auto simp: closeFollows_def handler_defs split: deferred.splits timer.splits if_splits)

lemma step_cleanups:
  assumes "closeFollows s"
  shows "cleanups (step c ev s) + settlements s =
           cleanups s + settlements (step c ev s) + (if ev = SocketClose then 1 else 0)"
  using assms
  by (cases ev)
     (auto simp: closeFollows_def settlements_def handler_defs
      split: deferred.splits timer.splits if_splits)

lemma run_cleanups:
  assumes "closeFollows s"
  shows "cleanups (run c evs s) + settlements s =
           cleanups s + settlements (run c evs s) + count_list evs SocketClose"
  using assms
proof (induction evs arbitrary: s)
  case Nil
  then show ?case by simp
next
  case (Cons ev evs)
  from Cons.IH [OF step_closeFollows [OF Cons.prems, of c ev]]
    step_cleanups [OF Cons.prems, of c ev]
  show ?case by (simp split: if_splits)
qed

subsection \<open>The media calls\<close>

lemma media_emit [simp]: "media (emit es s) = media s @ filter isMedia es"
  by (simp add: media_def)

lemma media_update [simp]:
  "media (s\<lparr>clientPromise := a1\<rparr>) = media s"
  "media (s\<lparr>sessionControl := a2\<rparr>) = media s"
  "media (s\<lparr>peerConnection := a3\<rparr>) = media s"
  "media (s\<lparr>intercom := a4\<rparr>) = media s"
  "media (s\<lparr>stage := a5\<rparr>) = media s"
  "media (s\<lparr>pcCloseSettled := a6\<rparr>) = media s"
  "media (s\<lparr>clientThens := n1\<rparr>) = media s"
  "media (s\<lparr>scThens := n2\<rparr>) = media s"
  "media (s\<lparr>pcThens := n3\<rparr>) = media s"
  "media (s\<lparr>icThens := n4\<rparr>) = media s"
  "media (s\<lparr>cleanups := n5\<rparr>) = media s"
  "media (s\<lparr>created := n6\<rparr>) = media s"
  "media (s\<lparr>sdp := t1\<rparr>) = media s"
  "media (s\<lparr>audioTrack := t2\<rparr>) = media s"
  "media (s\<lparr>videoTrack := t3\<rparr>) = media s"
  "media (s\<lparr>gotAudio := b1\<rparr>) = media s"
  "media (s\<lparr>gotVideo := b2\<rparr>) = media s"
  "media (s\<lparr>firSequenceNumber := n7\<rparr>) = media s"
  "media (s\<lparr>pictureLossInterval := tm\<rparr>) = media s"
  "media (s\<lparr>track := b3\<rparr>) = media s"
  "media (s\<lparr>destroyProcess := h\<rparr>) = media s"
  "media (s\<lparr>alive := ps\<rparr>) = media s"
  "media (s\<lparr>spawned := n8\<rparr>) = media s"
  "media (s\<lparr>onicecandidate := b4\<rparr>) = media s"
  by (simp_all add: media_def)

lemma media_stopIntercom [simp]: "media (snd (stopIntercom s)) = media s"
  by (simp add: stopIntercom_def split: option.splits)

lemma media_perform [simp]: "media (perform a s) = media s"
  by (cases a) (simp_all split: deferred.splits)

lemma media_flush [simp]: "media (flush n a s) = media s"
  by (induction n arbitrary: s) (simp_all del: perform.simps)

lemma media_cleanup [simp]: "media (cleanup s) = media s"
  by (simp add: cleanup_def Let_def del: perform.simps split: deferred.splits)

lemma media_startIntercom [simp]: "media (snd (startIntercom a cv sp s)) = media s"
  by (simp add: startIntercom_def Let_def split: deferred.splits)

lemma media_handleRtspSetup [simp]: "media (snd (handleRtspSetup c pb d s)) = media s"
  by (simp add: handleRtspSetup_def Let_def split: option.splits)

lemma media_localAnswer [simp]: "media (snd (localAnswer c oc cb p s)) = media s"
  by (simp add: localAnswer_def Let_def split_beta split: deferred.splits)

lemma media_localOffer [simp]: "media (snd (localOffer c oc cb p s)) = media s"
  by (simp add: localOffer_def Let_def split: deferred.splits)

lemma media_withPeerConnection [simp]:
  "media (snd (withPeerConnection c oc ty su cb p s)) = media s"
  by (simp add: withPeerConnection_def Let_def)

lemma media_resume [simp]: "media (resume p r s) = media s"
  by (cases r) simp_all

lemma media_resumeAll [simp]: "media (resumeAll p rs s) = media s"
  by (induction rs arbitrary: s) (simp_all del: resume.simps)

lemma media_ensurePeerConnection [simp]: "media (ensurePeerConnection su s) = media s"
  by (simp add: ensurePeerConnection_def)

lemma media_doSetup [simp]: "media (doSetup su s) = media s"
  by (simp add: doSetup_def Let_def split: deferred.splits)

lemma media_createLocalDescription [simp]:
  "media (snd (createLocalDescription c oc ty su cb s)) = media s"
  by (simp add: createLocalDescription_def Let_def split: deferred.splits)

lemma media_setRemoteDescription [simp]:
  "media (snd (setRemoteDescription c oc d su s)) = media s"
  by (simp add: setRemoteDescription_def Let_def split_beta split: deferred.splits)

lemma media_addIceCandidate [simp]: "media (snd (addIceCandidate oc s)) = media s"
  by (simp add: addIceCandidate_def split: deferred.splits)

lemma media_lifecycle [simp]:
  "media (onClientConnected s) = media s"
  "media (onSocketClose s) = media s"
  "media (onSignalingStarted s) = media s"
  "media (onConnected b s) = media s"
  "media (onStartFailed e s) = media s"
  "media (onPeerClosed s) = media s"
  by (simp_all add: onClientConnected_def onSocketClose_def onSignalingStarted_def
        onConnected_def onStartFailed_def pcRejected_def startCatch_def onPeerClosed_def Let_def
      split: deferred.splits timer.splits)

lemma media_step: "media (step c ev s) = media s @ mediaOf s ev"
  by (cases ev)
     (simp_all add: onAudioRtp_def onAudioRtcp_def onVideoRtp_def onVideoRtcp_def onInterval_def
        Let_def split: deferred.splits timer.splits)

lemma feedback_media: "feedback s = filter isFeedback (media s)"
proof -
  have "isFeedback e \<Longrightarrow> isMedia e" for e by (cases e) simp_all
  then have "(\<lambda>e. isMedia e \<and> isFeedback e) = isFeedback" by auto
  then show ?thesis by (simp add: feedback_def media_def)
qed

lemma toSink_media: "toSink s = filter isSendTrack (media s)"
proof -
  have "isSendTrack e \<Longrightarrow> isMedia e" for e by (cases e) simp_all
  then have "(\<lambda>e. isMedia e \<and> isSendTrack e) = isSendTrack" by auto
  then show ?thesis by (simp add: toSink_def media_def)
qed

lemma toSink_step: "toSink (step c ev s) = toSink s @ forwarded s ev"
  by (simp add: toSink_media media_step del: step.simps) (cases ev; simp split: timer.splits)

lemma feedback_step:
  "feedback (step c ev s) =
     feedback s @ (case (ev, pictureLossInterval s) of
                     (Interval, Running ms) \<Rightarrow> [SendRtcpFir (firSequenceNumber s), SendRtcpPLI]
                   | _ \<Rightarrow> [])"
  by (simp add: feedback_media media_step del: step.simps) (cases ev; simp split: timer.splits)

lemma toSink_run: "toSink (run c evs s) = toSink s @ relayed c s evs"
  by (induction evs arbitrary: s) (simp_all add: toSink_step)

lemma step_interval_fields:
  "firSequenceNumber (step c ev s) =
      (case ev of
         VideoRtp rtp \<Rightarrow> (if pictureLossInterval s = NotSet then 0 else firSequenceNumber s)
       | Interval \<Rightarrow> (case pictureLossInterval s of
                       Running ms \<Rightarrow> Suc (firSequenceNumber s)
                     | _ \<Rightarrow> firSequenceNumber s)
       | _ \<Rightarrow> firSequenceNumber s)"
  "pictureLossInterval (step c ev s) =
      (case ev of
         VideoRtp rtp \<Rightarrow>
           (if pictureLossInterval s = NotSet then Running 4000 else pictureLossInterval s)
       | PeerClosed \<Rightarrow> (case pictureLossInterval s of Running ms \<Rightarrow> Cleared | t \<Rightarrow> t)
       | _ \<Rightarrow> pictureLossInterval s)"
  by (cases ev;
      simp add: onClientConnected_def onSocketClose_def onSignalingStarted_def
        onConnected_def onStartFailed_def pcRejected_def startCatch_def onPeerClosed_def
        onInterval_def onAudioRtp_def onAudioRtcp_def onVideoRtp_def onVideoRtcp_def Let_def
      split: deferred.splits timer.splits)+

lemma step_counted:
  assumes "counted s"
  shows "counted (step c ev s)"
  using assms
  by (cases ev)
     (auto simp del: step.simps simp add: counted_def feedback_step step_interval_fields
        split: timer.splits)

lemma run_counted: "counted s \<Longrightarrow> counted (run c evs s)"
  by (induction evs arbitrary: s) (simp_all add: step_counted)

lemma counted_bridge0: "counted bridge0"
  by (simp add: counted_def feedback_def bridge0_def)

lemma run_cleared:
  "pictureLossInterval s = Cleared \<Longrightarrow>
     pictureLossInterval (run c evs s) = Cleared \<and> feedback (run c evs s) = feedback s"
proof (induction evs arbitrary: s)
  case Nil
  then show ?case by simp
next
  case (Cons ev evs)
  have t: "pictureLossInterval (step c ev s) = Cleared"
    using Cons.prems by (cases ev) (simp_all add: step_interval_fields(2) del: step.simps)
  have f: "feedback (step c ev s) = feedback s"
    using Cons.prems by (cases ev) (simp_all add: feedback_step del: step.simps)
  from Cons.IH [OF t] f show ?case by simp
qed

subsection \<open>Sink setup\<close>



lemma handleRtspSetup_outcome:
  "fst (handleRtspSetup c playback d s) = fst (handleRtspSetup c playback d s0)"
  by (simp add: handleRtspSetup_def Let_def split: option.splits)

lemma handleRtspSetup_sdp:
  "fst (handleRtspSetup c playback d s) = Resolved u \<Longrightarrow>
     sdp (snd (handleRtspSetup c playback d s)) = Some (createSdpInput c (dsdp d)) \<and>
     trace (snd (handleRtspSetup c playback d s)) = trace s @ [HandlePlayback]"
  by (auto simp: handleRtspSetup_def Let_def split: option.splits if_splits)

lemma exampleReady_then:
  "run exampleCollaborators (ClientConnected # exampleNegotiation @ evs) bridge0 =
     run exampleCollaborators evs exampleReady"
  using run_append [of exampleCollaborators "ClientConnected # exampleNegotiation" evs bridge0]
  by (simp add: exampleReady_def)

subsection \<open>The calls of cleanup on its collaborators\<close>

lemma count_list_replicate_same [simp]: "count_list (replicate n x) x = n"
  by (induction n) simp_all

lemma count_list_replicate_other [simp]: "x \<noteq> y \<Longrightarrow> count_list (replicate n x) y = 0"
  by (induction n) simp_all

lemma count_list_filter_in: "P x \<Longrightarrow> count_list (filter P xs) x = count_list xs x"
  by (induction xs) auto

lemma teardown_emit [simp]: "teardown (emit es s) = teardown s @ filter isTeardown es"
  by (simp add: teardown_def)

lemma teardown_update [simp]:
  "teardown (s\<lparr>clientPromise := a1\<rparr>) = teardown s"
  "teardown (s\<lparr>sessionControl := a2\<rparr>) = teardown s"
  "teardown (s\<lparr>peerConnection := a3\<rparr>) = teardown s"
  "teardown (s\<lparr>intercom := a4\<rparr>) = teardown s"
  "teardown (s\<lparr>stage := a5\<rparr>) = teardown s"
  "teardown (s\<lparr>pcCloseSettled := a6\<rparr>) = teardown s"
  "teardown (s\<lparr>clientThens := n1\<rparr>) = teardown s"
  "teardown (s\<lparr>scThens := n2\<rparr>) = teardown s"
  "teardown (s\<lparr>pcThens := rs\<rparr>) = teardown s"
  "teardown (s\<lparr>icThens := n4\<rparr>) = teardown s"
  "teardown (s\<lparr>cleanups := n5\<rparr>) = teardown s"
  "teardown (s\<lparr>created := n6\<rparr>) = teardown s"
  "teardown (s\<lparr>sdp := t1\<rparr>) = teardown s"
  "teardown (s\<lparr>audioTrack := t2\<rparr>) = teardown s"
  "teardown (s\<lparr>videoTrack := t3\<rparr>) = teardown s"
  "teardown (s\<lparr>gotAudio := b1\<rparr>) = teardown s"
  "teardown (s\<lparr>gotVideo := b2\<rparr>) = teardown s"
  "teardown (s\<lparr>firSequenceNumber := n7\<rparr>) = teardown s"
  "teardown (s\<lparr>pictureLossInterval := tm\<rparr>) = teardown s"
  "teardown (s\<lparr>track := b3\<rparr>) = teardown s"
  "teardown (s\<lparr>destroyProcess := h\<rparr>) = teardown s"
  "teardown (s\<lparr>alive := ps\<rparr>) = teardown s"
  "teardown (s\<lparr>spawned := n8\<rparr>) = teardown s"
  "teardown (s\<lparr>onicecandidate := b4\<rparr>) = teardown s"
  by (simp_all add: teardown_def)

lemma teardown_stopIntercom [simp]:
  "teardown (snd (stopIntercom s)) = teardown s @ [SetPlayback False False]"
  by (simp add: stopIntercom_def split: option.splits)

lemma teardown_perform:
  "teardown (perform DestroySocket s) = teardown s @ [SocketDestroy]"
  "teardown (perform EndSessionControl s) = teardown s @ [EndSession]"
  "teardown (perform ClosePeerConnection s) =
     teardown s @ (case peerConnection s of Resolved p \<Rightarrow> [PcClose (fst p)] | _ \<Rightarrow> [])"
  "teardown (perform StopIntercomCall s) = teardown s @ [SetPlayback False False]"
  by (simp_all split: deferred.splits)

lemma teardown_flush:
  "teardown (flush n DestroySocket s) = teardown s @ replicate n SocketDestroy"
  "teardown (flush n EndSessionControl s) = teardown s @ replicate n EndSession"
  "teardown (flush n StopIntercomCall s) = teardown s @ replicate n (SetPlayback False False)"
  by (induction n arbitrary: s;
      simp del: perform.simps add: teardown_perform replicate_app_Cons_same)+

lemma teardown_cleanup:
  "teardown (cleanup s) =
     teardown s @ (if resolved (clientPromise s) then [SocketDestroy] else [])
       @ (if resolved (sessionControl s) then [EndSession] else [])
       @ (case peerConnection s of Resolved p \<Rightarrow> [PcClose (fst p)] | _ \<Rightarrow> [])
       @ (if resolved (intercom s) then [SetPlayback False False] else [])"
  by (auto simp: cleanup_def Let_def teardown_perform simp del: perform.simps
      split: deferred.splits)

lemma cleanup_thens:
  "clientThens (cleanup s) =
     (if clientPromise s = Pending then Suc (clientThens s) else clientThens s)"
  "scThens (cleanup s) = (if sessionControl s = Pending then Suc (scThens s) else scThens s)"
  "pcThens (cleanup s) =
     (if peerConnection s = Pending then pcThens s @ [CleanupClose] else pcThens s)"
  "icThens (cleanup s) = (if intercom s = Pending then Suc (icThens s) else icThens s)"
  by (auto simp: cleanup_def Let_def split: deferred.splits)

lemma teardown_startIntercom:
  "teardown (snd (startIntercom a cv sp s)) =
     teardown s @ (if a \<and> track s \<and> resolved cv \<and> resolved sp
                   then [SetPlayback False False] else [])"
  by (simp add: startIntercom_def Let_def split: deferred.splits)

lemma teardown_handleRtspSetup [simp]:
  "teardown (snd (handleRtspSetup c pb d s)) = teardown s"
  by (simp add: handleRtspSetup_def Let_def split: option.splits)

lemma teardown_localAnswer [simp]: "teardown (snd (localAnswer c oc cb p s)) = teardown s"
  by (simp add: localAnswer_def Let_def split_beta split: deferred.splits)

lemma teardown_localOffer [simp]: "teardown (snd (localOffer c oc cb p s)) = teardown s"
  by (simp add: localOffer_def Let_def split: deferred.splits)

lemma teardown_withPeerConnection [simp]:
  "teardown (snd (withPeerConnection c oc ty su cb p s)) = teardown s"
  by (simp add: withPeerConnection_def Let_def)

lemma teardown_resume:
  "teardown (resume p r s) = teardown s @ (if isCleanupClose r then [PcClose p] else [])"
  by (cases r) simp_all

lemma teardown_resumeAll:
  "teardown (resumeAll p rs s) =
     teardown s @ replicate (length (filter isCleanupClose rs)) (PcClose p)"
  by (induction rs arbitrary: s)
     (simp_all del: resume.simps add: teardown_resume replicate_app_Cons_same)

lemma teardown_ensurePeerConnection:
  "teardown (ensurePeerConnection su s) =
     teardown s @ (if finished (peerConnection s) then []
                   else replicate (length (filter isCleanupClose (pcThens s)))
                          (PcClose (created s)))"
  by (simp add: ensurePeerConnection_def teardown_resumeAll)

lemma teardown_doSetup: "teardown (doSetup su s) = teardown (ensurePeerConnection su s)"
  by (simp add: doSetup_def Let_def split: deferred.splits)

lemma teardown_createLocalDescription:
  "teardown (snd (createLocalDescription c oc ty su cb s)) =
     (if ty = Offer then teardown (ensurePeerConnection su s) else teardown s)"
  by (simp add: createLocalDescription_def Let_def teardown_doSetup split: deferred.splits)

lemma teardown_setRemoteDescription:
  "teardown (snd (setRemoteDescription c oc d su s)) =
     (if dtype d = Offer then teardown (ensurePeerConnection su s) else teardown s)"
  by (simp add: setRemoteDescription_def Let_def split_beta teardown_doSetup
      split: deferred.splits)

lemma teardown_addIceCandidate [simp]: "teardown (snd (addIceCandidate oc s)) = teardown s"
  by (simp add: addIceCandidate_def split: deferred.splits)

lemma teardown_media [simp]:
  "teardown (onAudioRtp rtp s) = teardown s"
  "teardown (onAudioRtcp rtp s) = teardown s"
  "teardown (onVideoRtp rtp s) = teardown s"
  "teardown (onVideoRtcp rtp s) = teardown s"
  "teardown (onInterval s) = teardown s"
  by (simp_all add: onAudioRtp_def onAudioRtcp_def onVideoRtp_def onVideoRtcp_def onInterval_def
      Let_def split: timer.splits)

lemma cleanup_counts:
  "destroys (cleanup s) = destroys s + (if resolved (clientPromise s) then 1 else 0)"
  "ends (cleanup s) = ends s + (if resolved (sessionControl s) then 1 else 0)"
  "closes (cleanup s) = closes s + (if resolved (peerConnection s) then 1 else 0)"
  "stops (cleanup s) = stops s + (if resolved (intercom s) then 1 else 0)"
  "waiting (cleanup s) = waiting s + (if peerConnection s = Pending then 1 else 0)"
  by (simp_all add: destroys_def ends_def closes_def stops_def waiting_def teardown_cleanup
      cleanup_thens split: deferred.splits)

lemma emit_counts [simp]:
  "destroys (emit es s) = destroys s + count_list (filter isTeardown es) SocketDestroy"
  "ends (emit es s) = ends s + count_list (filter isTeardown es) EndSession"
  "closes (emit es s) = closes s + length (filter isPcClose (filter isTeardown es))"
  "stops (emit es s) = stops s + count_list (filter isTeardown es) (SetPlayback False False)"
  "waiting (emit es s) = waiting s"
  by (simp_all add: destroys_def ends_def closes_def stops_def waiting_def)

lemmas count_defs = destroys_def ends_def closes_def stops_def waiting_def

lemmas teardown_frames = teardown_flush teardown_cleanup cleanup_thens
  teardown_startIntercom teardown_createLocalDescription teardown_setRemoteDescription
  teardown_ensurePeerConnection

lemma pending_settle:
  "(\<not> finished d) = (d = Pending)"
  "reject e d \<noteq> Pending"
  "resolve v d \<noteq> Pending"
  by (cases d; simp)+

lemma step_destroys:
  assumes "destroys s = (if resolved (clientPromise s) then cleanups s else 0)"
    and "clientPromise s = Pending \<longrightarrow> clientThens s = cleanups s"
  shows "destroys (step c ev s) =
           (if resolved (clientPromise (step c ev s)) then cleanups (step c ev s) else 0) \<and>
         (clientPromise (step c ev s) = Pending \<longrightarrow>
            clientThens (step c ev s) = cleanups (step c ev s))"
  using assms
  by (cases ev)
     (auto simp: count_defs handler_defs teardown_frames pending_settle
        split: deferred.splits timer.splits if_splits)

lemma step_ends:
  assumes "ends s = (if resolved (sessionControl s) then cleanups s else 0)"
    and "sessionControl s = Pending \<longrightarrow> scThens s = cleanups s"
  shows "ends (step c ev s) =
           (if resolved (sessionControl (step c ev s)) then cleanups (step c ev s) else 0) \<and>
         (sessionControl (step c ev s) = Pending \<longrightarrow>
            scThens (step c ev s) = cleanups (step c ev s))"
  using assms
  by (cases ev)
     (auto simp: count_defs handler_defs teardown_frames pending_settle
        split: deferred.splits timer.splits if_splits)

lemma step_waits:
  assumes "intercom s = Pending \<longrightarrow> icThens s = cleanups s"
  shows "intercom (step c ev s) = Pending \<longrightarrow> icThens (step c ev s) = cleanups (step c ev s)"
  using assms
  by (cases ev)
     (auto simp: count_defs handler_defs teardown_frames pending_settle
        split: deferred.splits timer.splits if_splits)

lemma createLocalDescription_waiting:
  assumes "peerConnection (snd (createLocalDescription c oc ty su cb s)) = Pending"
  shows "waiting (snd (createLocalDescription c oc ty su cb s)) = waiting s"
proof -
  from assms have p: "peerConnection s = Pending" and t: "ty \<noteq> Offer"
    by (auto simp: createLocalDescription_peerConnection pending_settle split: if_splits)
  then show ?thesis by (simp add: createLocalDescription_def Let_def waiting_def)
qed

lemma setRemoteDescription_waiting:
  assumes "peerConnection (snd (setRemoteDescription c oc d su s)) = Pending"
  shows "waiting (snd (setRemoteDescription c oc d su s)) = waiting s"
proof -
  from assms have p: "peerConnection s = Pending" and t: "dtype d \<noteq> Offer"
    by (auto simp: setRemoteDescription_peerConnection pending_settle split: if_splits)
  then show ?thesis
    by (simp add: setRemoteDescription_def Let_def split_beta waiting_def split: deferred.splits)
qed

lemma addIceCandidate_waiting: "waiting (snd (addIceCandidate oc s)) = waiting s"
  by (simp add: addIceCandidate_def waiting_def split: deferred.splits)

lemma startIntercom_waiting [simp]: "waiting (snd (startIntercom a cv sp s)) = waiting s"
  by (simp add: waiting_def)

lemma stopIntercom_waiting [simp]: "waiting (snd (stopIntercom s)) = waiting s"
  by (simp add: waiting_def)

lemma signaling_closes:
  "closes (snd (createLocalDescription c oc ty su cb s)) =
     (if ty = Offer \<and> peerConnection s = Pending then closes s + waiting s else closes s)"
  "closes (snd (setRemoteDescription c oc d su s)) =
     (if dtype d = Offer \<and> peerConnection s = Pending then closes s + waiting s else closes s)"
  "closes (snd (addIceCandidate oc s)) = closes s"
  by (simp_all add: closes_def waiting_def teardown_createLocalDescription
      teardown_setRemoteDescription teardown_ensurePeerConnection pending_settle)

lemma step_closes:
  assumes "closes s = (if resolved (peerConnection s) then cleanups s else 0)"
    and "peerConnection s = Pending \<longrightarrow> waiting s = cleanups s"
  shows "closes (step c ev s) =
           (if resolved (peerConnection (step c ev s)) then cleanups (step c ev s) else 0) \<and>
         (peerConnection (step c ev s) = Pending \<longrightarrow>
            waiting (step c ev s) = cleanups (step c ev s))"
proof (cases ev)
  case (CreateLocalDescription oc ty su cb)
  then show ?thesis
    using assms createLocalDescription_waiting [of c oc ty su cb s]
    by (auto simp: signaling_closes createLocalDescription_peerConnection pending_settle
        split: if_splits)
next
  case (SetRemoteDescription oc d su)
  then show ?thesis
    using assms setRemoteDescription_waiting [of c oc d su s]
    by (auto simp: signaling_closes setRemoteDescription_peerConnection pending_settle
        split: if_splits)
next
  case (AddIceCandidate oc)
  then show ?thesis using assms by (simp add: signaling_closes addIceCandidate_waiting)
qed (insert assms,
     auto simp: closes_def stops_def waiting_def handler_defs teardown_frames pending_settle
       split: deferred.splits timer.splits if_splits)

lemma step_stops:
  assumes "intercom s = Pending \<longrightarrow> icThens s = cleanups s"
  shows "stops (step c ev s) + (if resolved (intercom s) then cleanups s else 0) =
           stops s + (if resolved (intercom (step c ev s)) then cleanups (step c ev s) else 0)
             + stopsBy s ev"
  using assms
  by (cases ev)
     (auto simp: count_defs handler_defs teardown_frames pending_settle
        split: deferred.splits timer.splits if_splits)

lemma run_closeFollows: "closeFollows s \<Longrightarrow> closeFollows (run c evs s)"
  by (induction evs arbitrary: s) (simp_all add: step_closeFollows)

lemma run_destroys:
  assumes "destroys s = (if resolved (clientPromise s) then cleanups s else 0)"
    and "clientPromise s = Pending \<longrightarrow> clientThens s = cleanups s"
  shows "destroys (run c evs s) =
           (if resolved (clientPromise (run c evs s)) then cleanups (run c evs s) else 0)"
  using assms
proof (induction evs arbitrary: s)
  case Nil
  then show ?case by simp
next
  case (Cons ev evs)
  from step_destroys [OF Cons.prems, of c ev] Cons.IH [of "step c ev s"]
  show ?case by simp
qed

lemma run_ends:
  assumes "ends s = (if resolved (sessionControl s) then cleanups s else 0)"
    and "sessionControl s = Pending \<longrightarrow> scThens s = cleanups s"
  shows "ends (run c evs s) =
           (if resolved (sessionControl (run c evs s)) then cleanups (run c evs s) else 0)"
  using assms
proof (induction evs arbitrary: s)
  case Nil
  then show ?case by simp
next
  case (Cons ev evs)
  from step_ends [OF Cons.prems, of c ev] Cons.IH [of "step c ev s"]
  show ?case by simp
qed

lemma run_closes:
  assumes "closes s = (if resolved (peerConnection s) then cleanups s else 0)"
    and "peerConnection s = Pending \<longrightarrow> waiting s = cleanups s"
  shows "closes (run c evs s) =
           (if resolved (peerConnection (run c evs s)) then cleanups (run c evs s) else 0)"
  using assms
proof (induction evs arbitrary: s)
  case Nil
  then show ?case by simp
next
  case (Cons ev evs)
  from step_closes [OF Cons.prems, of c ev] Cons.IH [of "step c ev s"]
  show ?case by simp
qed

lemma run_stops:
  assumes "intercom s = Pending \<longrightarrow> icThens s = cleanups s"
  shows "stops (run c evs s) + (if resolved (intercom s) then cleanups s else 0) =
           stops s + (if resolved (intercom (run c evs s)) then cleanups (run c evs s) else 0)
             + intercomStops c s evs"
  using assms
proof (induction evs arbitrary: s)
  case Nil
  then show ?case by simp
next
  case (Cons ev evs)
  have chain: "\<And>a x b y k c z m :: nat.
      a + x = b + y + k \<Longrightarrow> c + y = a + z + m \<Longrightarrow> c + x = b + z + (k + m)"
    by arith
  from chain [OF step_stops [OF Cons.prems, of c ev]
      Cons.IH [OF step_waits [OF Cons.prems, of c ev]]]
  show ?case by simp
qed

lemma counts_in_trace:
  "destroys s = count_list (trace s) SocketDestroy"
  "ends s = count_list (trace s) EndSession"
  "stops s = count_list (trace s) (SetPlayback False False)"
  "closes s = length (filter isPcClose (trace s))"
proof -
  have "isPcClose e \<Longrightarrow> isTeardown e" for e by (cases e) simp_all
  then have "(\<lambda>e. isTeardown e \<and> isPcClose e) = isPcClose" by auto
  then show "closes s = length (filter isPcClose (trace s))"
    by (simp add: closes_def teardown_def)
qed (simp_all add: destroys_def ends_def stops_def teardown_def count_list_filter_in)

section \<open>The claims\<close>

subsection \<open>Teardown\<close>

text \<open>
  C1, as the source has it.  \<^verbatim>\<open>cleanup\<close> has no guard.  Each of its triggers
  executes the body: every close event of the sink socket, the settlement of
  \<^verbatim>\<open>pcClose\<close> (the peer session closed, or \<^verbatim>\<open>peerConnection\<close> was rejected) and
  the \<^verbatim>\<open>catch\<close> handler of a rejected \<^verbatim>\<open>peerConnection\<close>.  The body registers one
  callback on each of four promises, and a callback makes its call once its promise is
  resolved, at once or later, and never on a promise that is rejected or stays pending.
  So in every run of a bridge whose client has connected, with as many triggers as there
  are close events of the socket, plus one if \<^verbatim>\<open>pcClose\<close> has settled, plus one if
  \<^verbatim>\<open>peerConnection\<close> is rejected: the sink socket is destroyed once per trigger; the
  session is ended once per trigger if the session control \<^verbatim>\<open>Deferred\<close> is resolved
  and not at all otherwise; the peer connection is closed once per trigger if its
  \<^verbatim>\<open>Deferred\<close> is resolved and not at all otherwise; and the intercom is stopped
  once per trigger if its \<^verbatim>\<open>Deferred\<close> is resolved and not at all otherwise, beside
  the stops that the users of the intercom make.
\<close>

theorem cleanup_calls_once_per_trigger:
  "count_list (trace (run c (ClientConnected # evs) bridge0)) SocketDestroy =
     triggers evs (run c (ClientConnected # evs) bridge0) \<and>
   count_list (trace (run c (ClientConnected # evs) bridge0)) EndSession =
     (if resolved (sessionControl (run c (ClientConnected # evs) bridge0))
      then triggers evs (run c (ClientConnected # evs) bridge0) else 0) \<and>
   length (filter isPcClose (trace (run c (ClientConnected # evs) bridge0))) =
     (if resolved (peerConnection (run c (ClientConnected # evs) bridge0))
      then triggers evs (run c (ClientConnected # evs) bridge0) else 0) \<and>
   count_list (trace (run c (ClientConnected # evs) bridge0)) (SetPlayback False False) =
     (if resolved (intercom (run c (ClientConnected # evs) bridge0))
      then triggers evs (run c (ClientConnected # evs) bridge0) else 0)
     + intercomStops c bridge0 (ClientConnected # evs)"
proof -
  let ?s0 = "step c ClientConnected bridge0"
  let ?f = "run c (ClientConnected # evs) bridge0"
  have start: "closeFollows ?s0" "cleanups ?s0 = 0" "settlements ?s0 = 0"
    by (simp_all add: closeFollows_def settlements_def onClientConnected_def bridge0_def)
  from run_cleanups [OF start(1), of c evs] start(2,3)
  have n: "cleanups ?f = triggers evs ?f" by (simp add: triggers_def)
  from run_closeFollows [OF start(1), of c evs]
  have client: "resolved (clientPromise ?f)" by (simp add: closeFollows_def)
  have zero: "destroys bridge0 = 0" "ends bridge0 = 0" "closes bridge0 = 0" "stops bridge0 = 0"
    "waiting bridge0 = 0" "cleanups bridge0 = 0" "clientThens bridge0 = 0"
    "scThens bridge0 = 0" "icThens bridge0 = 0" "\<not> resolved (clientPromise bridge0)"
    "\<not> resolved (sessionControl bridge0)" "\<not> resolved (peerConnection bridge0)"
    "\<not> resolved (intercom bridge0)"
    by (simp_all add: count_defs teardown_def bridge0_def)
  have d: "destroys ?f = (if resolved (clientPromise ?f) then cleanups ?f else 0)"
    by (rule run_destroys) (simp_all add: zero)
  have e: "ends ?f = (if resolved (sessionControl ?f) then cleanups ?f else 0)"
    by (rule run_ends) (simp_all add: zero)
  have p: "closes ?f = (if resolved (peerConnection ?f) then cleanups ?f else 0)"
    by (rule run_closes) (simp_all add: zero)
  have "stops ?f + (if resolved (intercom bridge0) then cleanups bridge0 else 0) =
          stops bridge0 + (if resolved (intercom ?f) then cleanups ?f else 0)
            + intercomStops c bridge0 (ClientConnected # evs)"
    by (rule run_stops) (simp add: zero)
  then have i: "stops ?f = (if resolved (intercom ?f) then cleanups ?f else 0)
      + intercomStops c bridge0 (ClientConnected # evs)"
    by (simp add: zero)
  from d e p i client show ?thesis
    unfolding n counts_in_trace by simp
qed

theorem cleanup_calls_once_per_trigger_witness:
  "triggers (exampleNegotiation @ [PeerClosed, SocketClose])
     (run exampleCollaborators [PeerClosed, SocketClose] exampleReady) = 2 \<and>
   count_list (trace (run exampleCollaborators [PeerClosed, SocketClose] exampleReady))
     SocketDestroy = 2 \<and>
   count_list (trace (run exampleCollaborators [PeerClosed, SocketClose] exampleReady))
     EndSession = 2 \<and>
   length (filter isPcClose
     (trace (run exampleCollaborators [PeerClosed, SocketClose] exampleReady))) = 2 \<and>
   count_list (trace (run exampleCollaborators [PeerClosed, SocketClose] exampleReady))
     (SetPlayback False False) = 2"
proof -
  let ?f = "run exampleCollaborators [PeerClosed, SocketClose] exampleReady"
  have n: "triggers (exampleNegotiation @ [PeerClosed, SocketClose]) ?f = 2"
    using exampleClosed_eq(2,3)
    by (simp add: triggers_def settlements_def exampleNegotiation_def del: run.simps)
  have none: "intercomStops exampleCollaborators bridge0
      (ClientConnected # exampleNegotiation @ [PeerClosed, SocketClose]) = 0"
    by (simp add: exampleNegotiation_def)
  have settled: "resolved (sessionControl ?f)" "resolved (peerConnection ?f)"
    "resolved (intercom ?f)"
    unfolding exampleClosed_eq by simp_all
  note w = cleanup_calls_once_per_trigger
    [of exampleCollaborators "exampleNegotiation @ [PeerClosed, SocketClose]",
     unfolded exampleReady_then none n]
  from w settled n show ?thesis by (simp del: run.simps)
qed

text \<open>
  The peer session closes, \<^verbatim>\<open>cleanup\<close> destroys the socket, the socket emits close:
  the socket was destroyed twice, the session ended twice, the peer connection closed
  twice and the intercom stopped twice.
\<close>

theorem teardown_happens_twice:
  "\<not> count_list (trace (run exampleCollaborators [PeerClosed, SocketClose] exampleReady))
       SocketDestroy \<le> 1 \<and>
   \<not> count_list (trace (run exampleCollaborators [PeerClosed, SocketClose] exampleReady))
       EndSession \<le> 1 \<and>
   \<not> length (filter isPcClose
       (trace (run exampleCollaborators [PeerClosed, SocketClose] exampleReady))) \<le> 1 \<and>
   \<not> count_list (trace (run exampleCollaborators [PeerClosed, SocketClose] exampleReady))
       (SetPlayback False False) \<le> 1"
  unfolding exampleClosed_eq by (simp add: exampleReady_eq)

text \<open>
  C5, as the source has it.  When \<^verbatim>\<open>start\<close> rejects, the \<^verbatim>\<open>catch\<close> handler rejects,
  with the error of \<^verbatim>\<open>start\<close>, each of the three \<^verbatim>\<open>Deferred\<close>s that is still
  pending and leaves a settled one as it is, so all three are settled afterwards.
  \<^verbatim>\<open>cleanup\<close> itself, and with it the close of the sink socket and the close of the
  peer session, settles none of the three: one that is pending stays pending.
\<close>

theorem startup_failure_rejects_pending:
  "(stage s \<noteq> Started \<and> stage s \<noteq> Failed \<longrightarrow>
      sessionControl (step c (StartFailed e) s) = reject e (sessionControl s) \<and>
      peerConnection (step c (StartFailed e) s) = reject e (peerConnection s) \<and>
      intercom (step c (StartFailed e) s) = reject e (intercom s) \<and>
      finished (sessionControl (step c (StartFailed e) s)) \<and>
      finished (peerConnection (step c (StartFailed e) s)) \<and>
      finished (intercom (step c (StartFailed e) s))) \<and>
   sessionControl (cleanup s) = sessionControl s \<and>
   peerConnection (cleanup s) = peerConnection s \<and>
   intercom (cleanup s) = intercom s \<and>
   sessionControl (step c SocketClose s) = sessionControl s \<and>
   peerConnection (step c SocketClose s) = peerConnection s \<and>
   intercom (step c SocketClose s) = intercom s \<and>
   sessionControl (step c PeerClosed s) = sessionControl s \<and>
   peerConnection (step c PeerClosed s) = peerConnection s \<and>
   intercom (step c PeerClosed s) = intercom s"
  by (simp add: onStartFailed_def onSocketClose_def onPeerClosed_def pcRejected_def
      startCatch_def Let_def split: deferred.splits timer.splits)

theorem startup_failure_rejects_pending_witness:
  "stage exampleOffered = AwaitConnected \<and>
   intercom exampleOffered = Pending \<and>
   intercom (step exampleCollaborators (StartFailed (External 1)) exampleOffered) =
     Rejected (External 1) \<and>
   sessionControl (step exampleCollaborators (StartFailed (External 1)) exampleOffered) =
     Resolved () \<and>
   peerConnection (step exampleCollaborators (StartFailed (External 1)) exampleOffered) =
     Resolved (0, 7)"
proof -
  have st: "stage exampleOffered = AwaitConnected" "intercom exampleOffered = Pending"
    "sessionControl exampleOffered = Resolved ()" "peerConnection exampleOffered = Resolved (0, 7)"
    by (simp_all add: exampleOffered_eq)
  from startup_failure_rejects_pending
         [of exampleOffered exampleCollaborators "External 1"] st
  show ?thesis by simp
qed

text \<open>
  The client connects and disconnects before the signaling session has started:
  \<^verbatim>\<open>cleanup\<close> has run and the three \<^verbatim>\<open>Deferred\<close>s are still pending.
\<close>

theorem teardown_leaves_pending:
  "cleanups (run exampleCollaborators [ClientConnected, SocketClose] bridge0) = 1 \<and>
   \<not> finished (sessionControl (run exampleCollaborators [ClientConnected, SocketClose] bridge0)) \<and>
   \<not> finished (peerConnection (run exampleCollaborators [ClientConnected, SocketClose] bridge0)) \<and>
   \<not> finished (intercom (run exampleCollaborators [ClientConnected, SocketClose] bridge0))"
  by (simp add: onClientConnected_def onSocketClose_def bridge0_def)

text \<open>
  C9.  \<^verbatim>\<open>ensurePeerConnection\<close> does nothing once the \<^verbatim>\<open>Deferred\<close> is finished, and
  neither does the \<^verbatim>\<open>doSetup\<close> that both \<^verbatim>\<open>createLocalDescription\<close> with an offer and
  \<^verbatim>\<open>setRemoteDescription\<close> of an offer call; in every run of a bridge at most one
  \<^verbatim>\<open>RTCPeerConnection\<close> is constructed; and once the \<^verbatim>\<open>Deferred\<close> is finished, no
  later event changes what it holds.
\<close>

theorem one_peer_connection:
  "(finished (peerConnection s) \<longrightarrow>
      ensurePeerConnection su s = s \<and>
      peerConnection (doSetup su s) = peerConnection s \<and>
      created (doSetup su s) = created s) \<and>
   created (run c evs bridge0) \<le> 1 \<and>
   (finished (peerConnection (run c evs bridge0)) \<longrightarrow>
      peerConnection (run c (evs @ later) bridge0) = peerConnection (run c evs bridge0))"
  using run_oneConnection [OF oneConnection_bridge0, of c evs]
  by (simp add: ensurePeerConnection_cases doSetup_peerConnection run_append
      run_peerConnection_settled oneConnection_def split: if_splits)

theorem one_peer_connection_witness:
  "finished (peerConnection exampleReady) \<and>
   ensurePeerConnection \<lparr>configuration = 9, datachannel = False\<rparr> exampleReady = exampleReady \<and>
   created exampleReady = 1 \<and>
   peerConnection (run exampleCollaborators
     [CreateLocalDescription exampleOutcomes Offer \<lparr>configuration = 9, datachannel = False\<rparr> True]
     exampleReady) = Resolved (0, 7)"
proof -
  have f: "finished (peerConnection exampleReady)" "created exampleReady = 1"
    "peerConnection exampleReady = Resolved (0, 7)"
    by (simp_all add: exampleReady_eq)
  note w = one_peer_connection
    [of exampleReady "\<lparr>configuration = 9, datachannel = False\<rparr>" exampleCollaborators
        "ClientConnected # exampleNegotiation"
        "[CreateLocalDescription exampleOutcomes Offer
            \<lparr>configuration = 9, datachannel = False\<rparr> True]",
     unfolded run_append, folded exampleReady_def]
  from w f show ?thesis by (simp del: run.simps step.simps)
qed

subsection \<open>The intercom\<close>

text \<open>
  C2, as the source has it.  After two successive successful calls of
  \<^verbatim>\<open>startIntercom\<close>, anywhere in a run of a bridge, exactly one pipeline is alive: the
  one of the second call.  The pipeline of the first call, alive after the first call,
  is killed by the second call after that call has started its own pipeline, and before
  it installs the new handle and signals the playback state, that is, before it
  completes.
\<close>

theorem startIntercom_replaces_pipeline:
  assumes "startIntercom isAlive1 convert1 spawn1 (run c evs bridge0) = (Resolved (), s1)"
    and "startIntercom isAlive2 convert2 spawn2 s1 = (Resolved (), s2)"
  shows "alive s1 = [spawned (run c evs bridge0)] \<and>
         alive s2 = [spawned s1] \<and>
         spawned s1 \<noteq> spawned (run c evs bridge0) \<and>
         destroyProcess s2 = Some (spawned s1) \<and>
         trace s2 = trace s1 @ [Spawn (spawned s1), Kill (spawned (run c evs bridge0)),
                                SetPlayback False False, SetPlayback True False]"
proof -
  let ?s = "run c evs bridge0"
  have inv: "installed ?s"
    by (rule run_installed [OF installed_bridge0])
  note first = startIntercom_resolved [OF assms(1)]
  note second = startIntercom_resolved [OF assms(2)]
  have a1: "alive s1 = [spawned ?s]"
    using inv first(4) by (auto simp: installed_def removeAll_only split: option.splits)
  have a2: "alive s2 = [spawned s1]"
    using second(4) first(2,3) a1 by simp
  have tr: "trace s2 = trace s1 @ [Spawn (spawned s1), Kill (spawned ?s),
           SetPlayback False False, SetPlayback True False]"
    using second(1) first(2) by simp
  from a1 a2 tr first(3) second(2) show ?thesis by simp
qed

theorem startIntercom_replaces_pipeline_witness:
  "startIntercom True (Resolved ()) (Resolved ()) exampleReady = (Resolved (), exampleFirst) \<and>
   startIntercom True (Resolved ()) (Resolved ()) exampleFirst = (Resolved (), exampleSecond) \<and>
   alive exampleFirst = [0] \<and>
   alive exampleSecond = [1] \<and>
   trace exampleSecond =
     trace exampleFirst @ [Spawn 1, Kill 0, SetPlayback False False, SetPlayback True False]"
proof -
  have a1: "startIntercom True (Resolved ()) (Resolved ())
              (run exampleCollaborators (ClientConnected # exampleNegotiation) bridge0) =
            (Resolved (), exampleFirst)"
    using exampleFirst_eq(1) unfolding exampleReady_def .
  note w = startIntercom_replaces_pipeline [OF a1 exampleSecond_eq(1), folded exampleReady_def]
  have n: "spawned exampleReady = 0" by (simp add: exampleReady_eq)
  from w n exampleFirst_eq(1,3) exampleSecond_eq(1) show ?thesis by simp
qed

text \<open>
  In the trace of two successive calls the second pipeline is started before the first
  one is killed, not after.
\<close>

theorem second_pipeline_started_first:
  "precedes (Spawn 1) (Kill 0) (trace exampleSecond) \<and>
   \<not> precedes (Kill 0) (Spawn 1) (trace exampleSecond)"
  by (simp add: exampleSecond_eq exampleFirst_eq exampleReady_eq precedes_def)

text \<open>
  C3, as the source has it.  \<^verbatim>\<open>stopIntercom\<close> called while no handle of a pipeline is
  installed (\<^verbatim>\<open>startIntercom\<close> has not succeeded before) kills nothing and raises no
  error, but it does signal the playback state with audio and video false to the session
  control handle, on every call; nothing else of the bridge changes, so a repeated call
  does the same again.
\<close>

theorem stopIntercom_without_handle:
  assumes "destroyProcess s = None"
  shows "stopIntercom s = (Resolved (), s\<lparr>trace := trace s @ [SetPlayback False False]\<rparr>) \<and>
         stopIntercom (snd (stopIntercom s)) =
           (Resolved (),
            s\<lparr>trace := trace s @ [SetPlayback False False, SetPlayback False False]\<rparr>)"
  using assms by (simp add: stopIntercom_def emit_def)

theorem stopIntercom_without_handle_witness:
  "destroyProcess exampleReady = None \<and>
   stopIntercom exampleReady =
     (Resolved (), exampleReady\<lparr>trace := trace exampleReady @ [SetPlayback False False]\<rparr>)"
proof -
  have h: "destroyProcess exampleReady = None" by (simp add: exampleReady_eq)
  from stopIntercom_without_handle [OF h] h show ?thesis by simp
qed

text \<open>
  No pipeline was ever started, and the call is observed by the session control handle.
\<close>

theorem stopIntercom_signals_playback:
  "destroyProcess exampleReady = None \<and> alive exampleReady = [] \<and>
   trace (snd (stopIntercom exampleReady)) \<noteq> trace exampleReady"
  by (simp add: exampleReady_eq)

text \<open>
  C10.  Every call of \<^verbatim>\<open>startIntercom\<close> that succeeds gives the session control
  handle two playback states, in this order: audio and video false, from the
  \<^verbatim>\<open>stopIntercom\<close> it calls, then audio true and video false.  This holds in every
  state, so also for the first call, when there is no pipeline to stop.
\<close>

theorem startIntercom_signals_playback_twice:
  assumes "startIntercom isAlive convert spawn s = (Resolved (), s')"
  shows "filter isPlayback (trace s') =
           filter isPlayback (trace s) @ [SetPlayback False False, SetPlayback True False]"
  using startIntercom_resolved(1) [OF assms] by (simp split: option.splits)

theorem startIntercom_signals_playback_twice_witness:
  "startIntercom True (Resolved ()) (Resolved ()) exampleReady = (Resolved (), exampleFirst) \<and>
   filter isPlayback (trace exampleFirst) = [SetPlayback False False, SetPlayback True False]"
proof -
  have no: "filter isPlayback (trace exampleReady) = []" by (simp add: exampleReady_eq)
  from startIntercom_signals_playback_twice [OF exampleFirst_eq(1)] no exampleFirst_eq(1)
  show ?thesis by simp
qed

subsection \<open>Sink setup and the signaling session\<close>




text \<open>
  C8.  \<^verbatim>\<open>createLocalDescription\<close> with type answer, on a bridge whose peer connection
  exists and whose \<^verbatim>\<open>createAnswer\<close> resolves.  Whenever the call returns a
  description, sink setup on the generated description has completed, before
  \<^verbatim>\<open>setLocalDescription\<close> was even called: the sink holds that description and the
  calls were made in this order.  When sink setup completes: with a
  \<^verbatim>\<open>sendIceCandidate\<close> callback the call returns the initial answer, whatever becomes
  of \<^verbatim>\<open>setLocalDescription\<close> and of candidate gathering; without the callback it
  returns the finalized local description once \<^verbatim>\<open>setLocalDescription\<close> has resolved and
  gathering is complete, and it does not return as long as gathering is not complete.
\<close>

theorem createLocalDescription_answer:
  assumes "peerConnection s = Resolved p" and "createAnswer oc = Resolved answer"
  shows
   "(\<forall>d. fst (createLocalDescription c oc Answer su cb s) = Resolved d \<longrightarrow>
       fst (handleRtspSetup c (handlePlayback oc) (createRawResponse c answer) s) = Resolved () \<and>
       sdp (snd (createLocalDescription c oc Answer su cb s)) =
         Some (createSdpInput c (dsdp (createRawResponse c answer))) \<and>
       trace (snd (createLocalDescription c oc Answer su cb s)) =
         trace s @ (if datachannel su then [CreateDataChannel (fst p)] else [])
           @ [PcCreateAnswer (fst p), HandlePlayback, PcSetLocalDescription (fst p) answer]) \<and>
    (fst (handleRtspSetup c (handlePlayback oc) (createRawResponse c answer) s) = Resolved () \<longrightarrow>
       (if cb then fst (createLocalDescription c oc Answer su cb s) =
                     Resolved (createRawResponse c answer)
        else (setLocal oc = Resolved () \<and> gathering oc \<longrightarrow>
                fst (createLocalDescription c oc Answer su cb s) =
                  Resolved (createRawResponse c (gathered oc answer))) \<and>
             (\<not> gathering oc \<longrightarrow>
                (\<forall>d. fst (createLocalDescription c oc Answer su cb s) \<noteq> Resolved d))))"
proof -
  let ?ret = "createRawResponse c answer"
  let ?s2 = "(if datachannel su then emit [CreateDataChannel (fst p)] s else s)"
  let ?s3 = "(if cb then ?s2\<lparr>onicecandidate := True\<rparr> else ?s2)"
  let ?s4 = "emit [PcCreateAnswer (fst p)] ?s3"
  let ?h = "handleRtspSetup c (handlePlayback oc) ?ret ?s4"
  have out: "fst ?h = fst (handleRtspSetup c (handlePlayback oc) ?ret s)"
    by (rule handleRtspSetup_outcome)
  have unfold: "createLocalDescription c oc Answer su cb s = localAnswer c oc cb (fst p) ?s3"
    using assms(1) by (simp add: createLocalDescription_def withPeerConnection_def Let_def)
  show ?thesis
  proof (cases "fst ?h")
    case Pending
    then have "fst (createLocalDescription c oc Answer su cb s) = Pending"
      using assms(2) by (simp add: unfold localAnswer_def Let_def split_beta)
    with Pending out show ?thesis by simp
  next
    case (Rejected e)
    then have "fst (createLocalDescription c oc Answer su cb s) = Rejected e"
      using assms(2) by (simp add: unfold localAnswer_def Let_def split_beta)
    with Rejected out show ?thesis by simp
  next
    case (Resolved u)
    let ?s5 = "emit [PcSetLocalDescription (fst p) answer] (snd ?h)"
    have run: "createLocalDescription c oc Answer su cb s =
        (if cb then (Resolved ?ret, ?s5)
         else case setLocal oc of
                Pending \<Rightarrow> (Pending, ?s5)
              | Rejected e \<Rightarrow> (Rejected e, ?s5)
              | Resolved _ \<Rightarrow>
                 (if gathering oc then (Resolved (createRawResponse c (gathered oc answer)), ?s5)
                  else (Pending, ?s5)))"
      using Resolved assms(2)
      by (simp add: unfold localAnswer_def Let_def split_beta split: deferred.splits)
    have st: "snd (createLocalDescription c oc Answer su cb s) = ?s5"
      by (simp add: run split: deferred.splits)
    have res: "fst (createLocalDescription c oc Answer su cb s) =
        (if cb then Resolved ?ret
         else case setLocal oc of
                Pending \<Rightarrow> Pending
              | Rejected e \<Rightarrow> Rejected e
              | Resolved _ \<Rightarrow>
                 (if gathering oc then Resolved (createRawResponse c (gathered oc answer))
                  else Pending))"
      by (simp add: run split: deferred.splits)
    have tr: "trace ?s5 = trace s @ (if datachannel su then [CreateDataChannel (fst p)] else [])
           @ [PcCreateAnswer (fst p), HandlePlayback, PcSetLocalDescription (fst p) answer]"
      and sd: "sdp ?s5 = Some (createSdpInput c (dsdp ?ret))"
      using handleRtspSetup_sdp [OF Resolved] by simp_all
    have ok: "fst (handleRtspSetup c (handlePlayback oc) ?ret s) = Resolved ()"
      using Resolved out by simp
    show ?thesis
      unfolding st tr sd ok res
      by (simp split: deferred.splits)
  qed
qed

theorem createLocalDescription_answer_witness:
  "fst (createLocalDescription exampleCollaborators exampleOutcomes Answer exampleSetup True
          exampleOffered) = Resolved exampleAnswer \<and>
   fst (createLocalDescription exampleCollaborators exampleOutcomes Answer exampleSetup False
          exampleOffered) = Resolved \<lparr>dtype = Answer, dsdp = ''gathered''\<rparr> \<and>
   trace (snd (createLocalDescription exampleCollaborators exampleOutcomes Answer exampleSetup
          False exampleOffered)) =
     trace exampleOffered @ [PcCreateAnswer 0, HandlePlayback, PcSetLocalDescription 0 exampleAnswer]"
proof -
  have pc: "peerConnection exampleOffered = Resolved (0, 7)"
    by (simp add: exampleOffered_eq)
  have ans: "createAnswer exampleOutcomes = Resolved exampleAnswer"
    by (simp add: exampleOutcomes_def exampleAnswer_def)
  have sink: "fst (handleRtspSetup exampleCollaborators (handlePlayback exampleOutcomes)
      (createRawResponse exampleCollaborators exampleAnswer) exampleOffered) = Resolved ()"
    by (simp add: handleRtspSetup_def exampleCollaborators_def exampleOutcomes_def
        exampleAnswer_def Let_def)
  have env: "createRawResponse exampleCollaborators exampleAnswer = exampleAnswer"
    "setLocal exampleOutcomes = Resolved ()" "gathering exampleOutcomes"
    "gathered exampleOutcomes exampleAnswer = \<lparr>dtype = Answer, dsdp = ''gathered''\<rparr>"
    "createRawResponse exampleCollaborators \<lparr>dtype = Answer, dsdp = ''gathered''\<rparr> =
       \<lparr>dtype = Answer, dsdp = ''gathered''\<rparr>"
    "\<not> datachannel exampleSetup"
    by (simp_all add: exampleCollaborators_def exampleOutcomes_def exampleSetup_def gathered_def)
  note trickle = createLocalDescription_answer
    [OF pc ans, where c = exampleCollaborators and su = exampleSetup and cb = True]
  note gather = createLocalDescription_answer
    [OF pc ans, where c = exampleCollaborators and su = exampleSetup and cb = False]
  have r1: "fst (createLocalDescription exampleCollaborators exampleOutcomes Answer exampleSetup
      True exampleOffered) = Resolved exampleAnswer"
    using trickle sink env by simp
  have r2: "fst (createLocalDescription exampleCollaborators exampleOutcomes Answer exampleSetup
      False exampleOffered) = Resolved \<lparr>dtype = Answer, dsdp = ''gathered''\<rparr>"
    using gather sink env by simp
  have r3: "trace (snd (createLocalDescription exampleCollaborators exampleOutcomes Answer
      exampleSetup False exampleOffered)) =
     trace exampleOffered @ [PcCreateAnswer 0, HandlePlayback, PcSetLocalDescription 0 exampleAnswer]"
    using gather r2 env(6) by simp
  from r1 r2 r3 show ?thesis by simp
qed

subsection \<open>The media relay and the keyframe requester\<close>

text \<open>
  C7.  Every packet arriving on a track makes exactly one call of the sink: the bytes
  are the serialization of that packet, the channel is the one bound to its track, and
  the tag is false for RTP and true for RTCP.  Over any sequence of events, the calls
  the sink gets are these, in the order in which the packets arrived, and nothing else.
\<close>

theorem media_relay:
  "trace (step c (AudioRtp rtp) s) = trace s @ [SendTrack (audioTrack s) (serialize rtp) False] \<and>
   trace (step c (AudioRtcp rtp) s) = trace s @ [SendTrack (audioTrack s) (serialize rtp) True] \<and>
   trace (step c (VideoRtp rtp) s) = trace s @ [SendTrack (videoTrack s) (serialize rtp) False] \<and>
   trace (step c (VideoRtcp rtp) s) = trace s @ [SendTrack (videoTrack s) (serialize rtp) True] \<and>
   toSink (run c evs s) = toSink s @ relayed c s evs"
  by (simp add: onAudioRtp_def onAudioRtcp_def onVideoRtp_def onVideoRtcp_def Let_def
      toSink_run emit_def)

theorem media_relay_witness:
  "toSink (run exampleCollaborators
      [AudioRtp (Packet [1]), VideoRtp (Packet [2, 3]), Interval, AudioRtcp (Packet [4]),
       VideoRtcp (Packet [5]), VideoRtp (Packet [6])] exampleReady) =
     [SendTrack (Some ''trackID=0'') [1] False, SendTrack (Some ''trackID=1'') [2, 3] False,
      SendTrack (Some ''trackID=0'') [4] True, SendTrack (Some ''trackID=1'') [5] True,
      SendTrack (Some ''trackID=1'') [6] False]"
proof -
  have none: "toSink exampleReady = []" by (simp add: toSink_def exampleReady_eq)
  have "relayed exampleCollaborators exampleReady
      [AudioRtp (Packet [1]), VideoRtp (Packet [2, 3]), Interval, AudioRtcp (Packet [4]),
       VideoRtcp (Packet [5]), VideoRtp (Packet [6])] =
     [SendTrack (Some ''trackID=0'') [1] False, SendTrack (Some ''trackID=1'') [2, 3] False,
      SendTrack (Some ''trackID=0'') [4] True, SendTrack (Some ''trackID=1'') [5] True,
      SendTrack (Some ''trackID=1'') [6] False]"
    by (simp add: exampleReady_eq onAudioRtp_def onAudioRtcp_def onVideoRtp_def onVideoRtcp_def
        onInterval_def Let_def emit_def)
  with media_relay [of exampleCollaborators _ exampleReady] none
  show ?thesis by (simp del: run.simps relayed.simps)
qed

text \<open>
  C6.  The first video RTP packet sets an interval of 4000 ms with the counter at 0.
  Every firing of the running interval sends exactly two feedback packets, a full intra
  request carrying the counter and then a picture loss indication, and adds one to the
  counter; so in every run of a bridge the feedback sent is the pairs numbered from 0,
  one pair per firing.  When the peer session closes while the interval runs, the
  interval is cleared, and whatever happens afterwards no feedback is sent any more.
\<close>

theorem keyframe_requester:
  "(pictureLossInterval s = NotSet \<longrightarrow>
      pictureLossInterval (step c (VideoRtp rtp) s) = Running 4000 \<and>
      firSequenceNumber (step c (VideoRtp rtp) s) = 0) \<and>
   (pictureLossInterval s = Running ms \<longrightarrow>
      trace (step c Interval s) = trace s @ [SendRtcpFir (firSequenceNumber s), SendRtcpPLI] \<and>
      firSequenceNumber (step c Interval s) = Suc (firSequenceNumber s) \<and>
      pictureLossInterval (step c Interval s) = Running ms) \<and>
   feedback (run c evs bridge0) = numbered (firSequenceNumber (run c evs bridge0)) \<and>
   (pictureLossInterval s = Running ms \<longrightarrow>
      pictureLossInterval (run c evs (step c PeerClosed s)) = Cleared \<and>
      feedback (run c evs (step c PeerClosed s)) = feedback s)"
proof -
  have closed: "pictureLossInterval (step c PeerClosed s) = Cleared
      \<and> feedback (step c PeerClosed s) = feedback s" if "pictureLossInterval s = Running ms"
    using that by (simp add: step_interval_fields(2) feedback_step del: step.simps)
  show ?thesis
    using run_counted [OF counted_bridge0, of c evs]
      run_cleared [of "step c PeerClosed s" c evs] closed
    by (auto simp: counted_def onVideoRtp_def onInterval_def Let_def)
qed

theorem keyframe_requester_witness:
  "pictureLossInterval exampleReady = NotSet \<and>
   pictureLossInterval exampleArmed = Running 4000 \<and>
   trace (step exampleCollaborators Interval exampleArmed) =
     trace exampleArmed @ [SendRtcpFir 0, SendRtcpPLI] \<and>
   firSequenceNumber (step exampleCollaborators Interval exampleArmed) = 1 \<and>
   feedback (run exampleCollaborators [Interval, VideoRtp (Packet [4]), Interval]
     (step exampleCollaborators PeerClosed exampleArmed)) = []"
proof -
  have idle: "pictureLossInterval exampleReady = NotSet" by (simp add: exampleReady_eq)
  have quiet: "feedback exampleArmed = []"
    by (simp add: feedback_def exampleArmed_eq exampleReady_eq)
  note arm = keyframe_requester
    [of exampleReady exampleCollaborators "Packet [1, 2, 3]", folded exampleArmed_def]
  note fire = keyframe_requester
    [of exampleArmed exampleCollaborators _ 4000 "[Interval, VideoRtp (Packet [4]), Interval]"]
  have armed: "pictureLossInterval exampleArmed = Running 4000"
    using arm idle by simp
  from fire armed idle quiet exampleArmed_eq(2) show ?thesis
    by (simp del: run.simps step.simps)
qed


end

